theory Spec2Isabelle
  imports Complex_Main
begin

section \<open>JavaScript values and arrays\<close>

text \<open>
  The waveform builder of peaks.js (\<^verbatim>\<open>src/waveform-builder.js\<close>) works on JavaScript
  numbers and on arrays created with \<^verbatim>\<open>new Array(n)\<close>.  Numbers are modelled as reals
  (no rounding error, no NaN, no infinity; a division by zero is written out where the source
  can reach one).  An array slot that was never assigned, or an index outside the array,
  reads as \<^verbatim>\<open>undefined\<close>.
\<close>

datatype jsval = Undefined | Num real

text \<open>
  The relational operator \<^verbatim>\<open>a <= b\<close>: \<^verbatim>\<open>undefined\<close> converts to NaN, and every
  comparison with NaN is false.
\<close>

fun js_le :: "jsval \<Rightarrow> jsval \<Rightarrow> bool" where
  "js_le (Num a) (Num b) = (a \<le> b)"
| "js_le _ _ = False"

record jsarray =
  alen :: int
  elems :: "int \<Rightarrow> jsval"

definition new_Array :: "int \<Rightarrow> jsarray" where
  "new_Array n = \<lparr>alen = n, elems = (\<lambda>k. Undefined)\<rparr>"

text \<open>\<^verbatim>\<open>a[k]\<close> as a read.\<close>

definition aget :: "jsarray \<Rightarrow> int \<Rightarrow> jsval" where
  "aget a k = (if 0 \<le> k \<and> k < alen a then elems a k else Undefined)"

text \<open>
  \<^verbatim>\<open>a[k] = v\<close> for \<open>k \<ge> 0\<close> (the source never writes at a negative index):
  the array grows when \<open>k\<close> is beyond its length.
\<close>

definition aput :: "jsarray \<Rightarrow> int \<Rightarrow> jsval \<Rightarrow> jsarray" where
  "aput a k v = \<lparr>alen = max (alen a) (k + 1), elems = (elems a)(k := v)\<rparr>"

section \<open>The waveform-data library object\<close>

text \<open>
  \<^verbatim>\<open>WaveformData\<close> comes from the external library \<^verbatim>\<open>waveform-data\<close>.  Only its
  properties are used here: \<^verbatim>\<open>sample_rate\<close>, \<^verbatim>\<open>scale\<close>, \<^verbatim>\<open>length\<close>,
  \<^verbatim>\<open>duration\<close>, \<^verbatim>\<open>channels\<close>, and the accessors \<^verbatim>\<open>min_sample\<close> and
  \<^verbatim>\<open>max_sample\<close> of \<^verbatim>\<open>channel(0)\<close>.  Its \<^verbatim>\<open>resample\<close> method is a parameter
  of the definitions that call it.
\<close>

record WaveformData =
  sample_rate :: real
  scale :: real
  length_wd :: int
  duration :: real
  channels :: nat
  channel_min_sample :: "int \<Rightarrow> jsval"
  channel_max_sample :: "int \<Rightarrow> jsval"

type_synonym resampler = "WaveformData \<Rightarrow> real \<Rightarrow> WaveformData"

section \<open>VirtualChannel\<close>

record VirtualChannel =
  originalWaveform :: WaveformData
  samples_per_pixel :: real
  data :: jsarray
  dataOffset :: int
  detailUriProvider :: "real \<Rightarrow> real \<Rightarrow> string"
  refreshCallback :: bool
  xhr :: "nat option"

text \<open>
  The constructor.  \<open>refreshCallback\<close> records whether a callback was passed; \<open>xhr\<close> is the
  handle of the latest request, absent at first.
\<close>

definition new_VirtualChannel ::
  "WaveformData \<Rightarrow> real \<Rightarrow> (real \<Rightarrow> real \<Rightarrow> string) \<Rightarrow> bool \<Rightarrow> VirtualChannel" where
  "new_VirtualChannel original spp provider cb =
     \<lparr>originalWaveform = original, samples_per_pixel = spp, data = new_Array 0, dataOffset = 0,
      detailUriProvider = provider, refreshCallback = cb, xhr = None\<rparr>"

definition in_range :: "VirtualChannel \<Rightarrow> int \<Rightarrow> bool" where
  "in_range ch index \<longleftrightarrow>
     index \<ge> dataOffset ch \<and>
     real_of_int index < real_of_int (dataOffset ch) + real_of_int (alen (data ch)) / 2"

text \<open>The guard that opens \<^verbatim>\<open>ensureIndexAvailable\<close> (it compares with \<^verbatim>\<open><=\<close>).\<close>

definition already_available :: "VirtualChannel \<Rightarrow> int \<Rightarrow> bool" where
  "already_available ch index \<longleftrightarrow>
     index \<ge> dataOffset ch \<and>
     real_of_int index \<le> real_of_int (dataOffset ch) + real_of_int (alen (data ch)) / 2"

definition maxWindowSize :: int where
  "maxWindowSize = 2000"

text \<open>\<^verbatim>\<open>Math.round(x)\<close> is \<open>\<lfloor>x + 1/2\<rfloor>\<close>.\<close>

definition Math_round :: "real \<Rightarrow> int" where
  "Math_round x = \<lfloor>x + 1 / 2\<rfloor>"

definition sampleIdxInOriginalWave :: "VirtualChannel \<Rightarrow> int \<Rightarrow> int" where
  "sampleIdxInOriginalWave ch i =
     Math_round (1 / 2 + real_of_int i * samples_per_pixel ch / scale (originalWaveform ch))"

text \<open>
  The test \<^verbatim>\<open>sampleIdxInOriginalWave >= 0 && sampleIdxInOriginalWave < length\<close>.  With
  a scale of zero the quotient is infinite or NaN in JavaScript, and the test fails.
\<close>

definition seed_in_bounds :: "VirtualChannel \<Rightarrow> int \<Rightarrow> bool" where
  "seed_in_bounds ch i \<longleftrightarrow>
     scale (originalWaveform ch) \<noteq> 0 \<and>
     sampleIdxInOriginalWave ch i \<ge> 0 \<and>
     sampleIdxInOriginalWave ch i < length_wd (originalWaveform ch)"

text \<open>One turn of the loop that fills \<^verbatim>\<open>newData\<close> (\<^verbatim>\<open>useUpsampledOriginalData\<close> is always true).\<close>

definition seed_step :: "VirtualChannel \<Rightarrow> int \<Rightarrow> int \<Rightarrow> jsarray \<Rightarrow> jsarray" where
  "seed_step ch from i newData =
     (if in_range ch i then
        aput (aput newData ((i - from) * 2) (aget (data ch) ((i - dataOffset ch) * 2)))
          ((i - from) * 2 + 1) (aget (data ch) ((i - dataOffset ch) * 2 + 1))
      else if seed_in_bounds ch i then
        aput (aput newData ((i - from) * 2)
               (channel_min_sample (originalWaveform ch) (sampleIdxInOriginalWave ch i)))
          ((i - from) * 2 + 1)
          (channel_max_sample (originalWaveform ch) (sampleIdxInOriginalWave ch i))
      else newData)"

function seed_loop :: "VirtualChannel \<Rightarrow> int \<Rightarrow> int \<Rightarrow> int \<Rightarrow> jsarray \<Rightarrow> jsarray" where
  "seed_loop ch from to i newData =
     (if i < to then seed_loop ch from to (i + 1) (seed_step ch from i newData) else newData)"
  by pat_completeness auto
termination
  by (relation "measure (\<lambda>(ch, from, to, i, newData). nat (to - i))") auto

declare seed_loop.simps [simp del]

subsection \<open>Requests and the channel's surroundings\<close>

text \<open>
  Every \<^verbatim>\<open>XMLHttpRequest\<close> the channel creates is an entry of \<open>requests\<close>; its position
  is its handle.  \<open>rq_from\<close> and \<open>rq_to\<close> are the variables \<^verbatim>\<open>from\<close> and \<^verbatim>\<open>to\<close>
  that the request's \<^verbatim>\<open>onload\<close> closure captured.  \<open>refreshes\<close> counts the calls of the
  refresh callback, \<open>console\<close> holds what was logged.
\<close>

record request =
  rq_from :: int
  rq_to :: int
  rq_url :: string
  rq_aborted :: bool
  rq_done :: bool

record world =
  chan :: VirtualChannel
  requests :: "request list"
  refreshes :: nat
  console :: "string list"

definition new_world :: "VirtualChannel \<Rightarrow> world" where
  "new_world ch = \<lparr>chan = ch, requests = [], refreshes = 0, console = []\<rparr>"

text \<open>\<^verbatim>\<open>xhr.abort()\<close>: a request that has completed is left as it is.\<close>

definition abort :: "nat \<Rightarrow> request list \<Rightarrow> request list" where
  "abort h rs =
     (if h < length rs \<and> \<not> rq_done (rs ! h) then rs[h := (rs ! h)\<lparr>rq_aborted := True\<rparr>] else rs)"

definition in_flight :: "world \<Rightarrow> nat \<Rightarrow> bool" where
  "in_flight w h \<longleftrightarrow>
     h < length (requests w) \<and> \<not> rq_aborted (requests w ! h) \<and> \<not> rq_done (requests w ! h)"

text \<open>\<^verbatim>\<open>if(this.xhr) this.xhr.abort()\<close>, as the requests it leaves.\<close>

definition aborted_prev :: "world \<Rightarrow> request list" where
  "aborted_prev w = (case xhr (chan w) of None \<Rightarrow> requests w | Some h \<Rightarrow> abort h (requests w))"

definition ensureIndexAvailable :: "world \<Rightarrow> int \<Rightarrow> world" where
  "ensureIndexAvailable w index =
     (let ch = chan w in
      if already_available ch index then w
      else
        let from = index - maxWindowSize;
            to = index + maxWindowSize;
            newData = seed_loop ch from to from (new_Array ((to - from) * 2));
            url = detailUriProvider ch
                    (real_of_int from * samples_per_pixel ch / 48000)
                    (real_of_int to * samples_per_pixel ch / 48000);
            rs = aborted_prev w
        in w\<lparr>chan := ch\<lparr>data := newData, dataOffset := from, xhr := Some (length rs)\<rparr>,
              requests := rs @ [\<lparr>rq_from = from, rq_to = to, rq_url = url,
                                 rq_aborted = False, rq_done = False\<rparr>]\<rparr>)"

definition min_sample :: "world \<Rightarrow> int \<Rightarrow> world \<times> jsval" where
  "min_sample w index =
     (let w' = ensureIndexAvailable w index
      in (w', aget (data (chan w')) ((index - dataOffset (chan w')) * 2)))"

definition max_sample :: "world \<Rightarrow> int \<Rightarrow> world \<times> jsval" where
  "max_sample w index =
     (let w' = ensureIndexAvailable w index
      in (w', aget (data (chan w')) ((index - dataOffset (chan w')) * 2 + 1)))"

subsection \<open>The load handler\<close>

text \<open>
  Modelled from the spec: the accessors \<^verbatim>\<open>min_sample\<close> and \<^verbatim>\<open>max_sample\<close> of the
  library's channel, which are not among the sources.  They return the stored pair at an
  index within \<open>[0, length)\<close> and fail outside it (section 4.1); the library throws a
  \<^verbatim>\<open>RangeError\<close>.  The seeding loop tests the index before it reads; the copy loop
  does not.
\<close>

datatype exception = RangeError

definition index_in_wave :: "WaveformData \<Rightarrow> int \<Rightarrow> bool" where
  "index_in_wave channel i \<longleftrightarrow> 0 \<le> i \<and> i < length_wd channel"

text \<open>
  The loop that copies the resampled response into \<^verbatim>\<open>this.data\<close>.  It returns the array
  as the loop leaves it, and the exception when a read threw: the pairs written before stay.
\<close>

function copy_loop ::
  "WaveformData \<Rightarrow> int \<Rightarrow> int \<Rightarrow> jsarray \<Rightarrow> jsarray \<times> exception option" where
  "copy_loop channel dataIdx numSamplesToCopy d =
     (if dataIdx < numSamplesToCopy then
        if index_in_wave channel dataIdx then
          copy_loop channel (dataIdx + 1) numSamplesToCopy
            (aput (aput d (dataIdx * 2) (channel_min_sample channel dataIdx))
               (dataIdx * 2 + 1) (channel_max_sample channel dataIdx))
        else (d, Some RangeError)
      else (d, None))"
  by pat_completeness auto
termination
  by (relation "measure (\<lambda>(channel, dataIdx, n, d). nat (n - dataIdx))") auto

declare copy_loop.simps [simp del]

definition numSamplesToCopy :: "request \<Rightarrow> WaveformData \<Rightarrow> int" where
  "numSamplesToCopy rq waveformData = min (rq_to rq - rq_from rq) (length_wd waveformData)"

text \<open>
  \<^verbatim>\<open>xhr.onload\<close> of request \<open>h\<close>, called with the request's \<^verbatim>\<open>readyState\<close> and
  \<^verbatim>\<open>status\<close> and the decoded response.  The arrow function's \<^verbatim>\<open>this\<close> is the
  channel, so it reads and writes the channel's current \<^verbatim>\<open>data\<close>.  \<open>resample\<close> is the
  library's \<^verbatim>\<open>waveformData.resample({scale: ...})\<close>.  When a read of the copy loop
  throws, the handler ends there and the refresh callback is not called.
\<close>

definition onload :: "resampler \<Rightarrow> world \<Rightarrow> nat \<Rightarrow> nat \<Rightarrow> nat \<Rightarrow> WaveformData \<Rightarrow> world" where
  "onload resample w h readyState status waveformData =
     (if h \<ge> length (requests w) then w
      else if readyState \<noteq> 4 then w
      else if status \<noteq> 200 then
        w\<lparr>console := console w @ [''Unable to fetch remote data. HTTP status'']\<rparr>
      else if channels waveformData \<noteq> 1 then
        w\<lparr>console := console w @
              [''Peaks.init(): Only mono or stereo waveforms are currently supported'']\<rparr>
      else
        let ch = chan w;
            resampled = resample waveformData (samples_per_pixel ch);
            copied =
              copy_loop resampled 0 (numSamplesToCopy (requests w ! h) waveformData) (data ch)
        in w\<lparr>chan := ch\<lparr>data := fst copied\<rparr>,
              refreshes :=
                (if snd copied = None \<and> refreshCallback ch then Suc (refreshes w)
                 else refreshes w)\<rparr>)"

subsection \<open>What the browser does with a request\<close>

text \<open>
  A request that was sent and neither aborted nor completed is in flight.  The browser
  completes it once: with a \<^verbatim>\<open>load\<close> event, which runs \<^verbatim>\<open>onload\<close> with
  \<^verbatim>\<open>readyState\<close> 4, or with a transport error, for which the channel registers no
  handler.  An aborted or completed request gets no event.  The rendering layer reaches
  \<^verbatim>\<open>ensureIndexAvailable\<close> through \<^verbatim>\<open>min_sample\<close> and \<^verbatim>\<open>max_sample\<close>.
\<close>

definition complete :: "nat \<Rightarrow> world \<Rightarrow> world" where
  "complete h w = w\<lparr>requests := (requests w)[h := (requests w ! h)\<lparr>rq_done := True\<rparr>]\<rparr>"

datatype event = Access int | Load nat nat WaveformData | Failed nat

fun deliver :: "resampler \<Rightarrow> world \<Rightarrow> event \<Rightarrow> world" where
  "deliver resample w (Access index) = ensureIndexAvailable w index"
| "deliver resample w (Load h status waveformData) =
     (if in_flight w h then onload resample (complete h w) h 4 status waveformData else w)"
| "deliver resample w (Failed h) = (if in_flight w h then complete h w else w)"

definition run :: "resampler \<Rightarrow> world \<Rightarrow> event list \<Rightarrow> world" where
  "run resample w es = foldl (deliver resample) w es"

section \<open>DynamicLoadWaveForm and DynamicResampleWaveform\<close>

record DynamicLoadWaveForm =
  dl_waveformData :: WaveformData
  dl_length :: real
  dl_samples_per_pixel :: real
  dl_channel :: VirtualChannel

text \<open>
  The constructor throws for a waveform that has not exactly one channel.  It is only called
  from \<^verbatim>\<open>resample\<close>, with a \<open>length\<close> above the waveform's, so the division is by a
  positive number.  The waveform it is given is the \<^verbatim>\<open>DynamicResampleWaveform\<close>, whose
  \<^verbatim>\<open>scale\<close>, \<^verbatim>\<open>length\<close>, \<^verbatim>\<open>channels\<close> and \<^verbatim>\<open>channel(0)\<close> are those of the
  \<^verbatim>\<open>WaveformData\<close> it wraps.
\<close>

definition new_DynamicLoadWaveForm ::
  "WaveformData \<Rightarrow> real \<Rightarrow> (real \<Rightarrow> real \<Rightarrow> string) \<Rightarrow> bool \<Rightarrow> string + DynamicLoadWaveForm" where
  "new_DynamicLoadWaveForm waveformData len provider cb =
     (if channels waveformData \<noteq> 1 then Inl ''No support for multiple channels''
      else
        let spp = scale waveformData * real_of_int (length_wd waveformData) / len
        in Inr \<lparr>dl_waveformData = waveformData, dl_length = len, dl_samples_per_pixel = spp,
                dl_channel = new_VirtualChannel waveformData spp provider cb\<rparr>)"

record DynamicResampleWaveform =
  dr_waveformData :: WaveformData
  dr_detailUriProvider :: "real \<Rightarrow> real \<Rightarrow> string"

text \<open>The argument of \<^verbatim>\<open>resample\<close>: each of \<^verbatim>\<open>scale\<close> and \<^verbatim>\<open>width\<close> may be absent.\<close>

record resample_args =
  arg_scale :: "real option"
  arg_width :: "real option"

text \<open>
  What \<^verbatim>\<open>resample\<close> returns: a \<^verbatim>\<open>DynamicLoadWaveForm\<close>, or whatever the library's
  \<^verbatim>\<open>waveformData.resample(args)\<close> returns, kept here as the call itself.
\<close>

datatype resampled = Virtual DynamicLoadWaveForm | Downsampled WaveformData resample_args

text \<open>
  The target length: \<^verbatim>\<open>args.scale\<close> counts when it is present and not zero; an absent
  \<^verbatim>\<open>args.width\<close> leaves the length undefined.
\<close>

definition target_length :: "DynamicResampleWaveform \<Rightarrow> resample_args \<Rightarrow> real option" where
  "target_length w args =
     (case arg_scale args of
        Some s \<Rightarrow>
          if s \<noteq> 0 then Some (duration (dr_waveformData w) * sample_rate (dr_waveformData w) / s)
          else arg_width args
      | None \<Rightarrow> arg_width args)"

definition resample :: "DynamicResampleWaveform \<Rightarrow> resample_args \<Rightarrow> bool \<Rightarrow> string + resampled" where
  "resample w args callback =
     (case target_length w args of
        Some len \<Rightarrow>
          if len > real_of_int (length_wd (dr_waveformData w)) then
            (case new_DynamicLoadWaveForm (dr_waveformData w) len (dr_detailUriProvider w) callback of
               Inl e \<Rightarrow> Inl e
             | Inr v \<Rightarrow> Inr (Virtual v))
          else Inr (Downsampled (dr_waveformData w) args)
      | None \<Rightarrow> Inr (Downsampled (dr_waveformData w) args))"

section \<open>WaveformBuilder.init\<close>

text \<open>
  The options as \<^verbatim>\<open>init\<close> tests them.  A \<^verbatim>\<open>dataUri\<close> is absent, a string, an object
  with the URLs \<^verbatim>\<open>arraybuffer\<close> and \<^verbatim>\<open>json\<close>, or some other value;
  \<^verbatim>\<open>waveformData\<close> is absent, an object that may hold \<^verbatim>\<open>json\<close> or
  \<^verbatim>\<open>arraybuffer\<close> data, or some other value.
\<close>

datatype dataUri_option = NoDataUri | DataUriString string
  | DataUriObject "string option" "string option" | DataUriOther

datatype waveformData_option = NoWaveformData | WaveformDataObject bool bool | WaveformDataOther

datatype audioContext_value = AudioContextInstance | NotAnAudioContext

record webAudio_option =
  wa_audioContext :: audioContext_value
  wa_audioBuffer :: bool

record init_options =
  opt_dataUri :: dataUri_option
  opt_dataUriDefaultFormat :: "string option"
  opt_waveformData :: waveformData_option
  opt_webAudio :: "webAudio_option option"
  opt_audioContext :: "audioContext_value option"

datatype js_error = TypeError string | Error string

text \<open>One call of the completion callback: \<^verbatim>\<open>callback(error)\<close> or \<^verbatim>\<open>callback(null, waveform)\<close>.\<close>

datatype call = Failure js_error | Success WaveformData

datatype xhr_outcome = Loaded nat nat | TransportError | NoEvent

text \<open>
  What lies outside the builder: the platform's \<^verbatim>\<open>window.ArrayBuffer\<close> and
  \<^verbatim>\<open>window.JSON\<close>, the media element's \<^verbatim>\<open>currentSrc\<close> now and when
  \<^verbatim>\<open>player.canplay\<close> fires (if it does), how the request ends (a load with its
  \<^verbatim>\<open>readyState\<close> and \<^verbatim>\<open>status\<close>, a transport error, or nothing), what
  \<^verbatim>\<open>WaveformData.create\<close> returns or throws, and the calls that
  \<^verbatim>\<open>WaveformData.createFromAudio\<close> makes to the callback it is given.  The callback
  itself is taken not to throw.
\<close>

record env =
  window_ArrayBuffer :: bool
  window_JSON :: bool
  currentSrc :: string
  canplay :: "string option"
  xhr_outcome :: xhr_outcome
  create :: "js_error + WaveformData"
  createFromAudio :: "call list"

text \<open>Whether an optional property is there (an object, when it is, is truthy).\<close>

fun given :: "'a option \<Rightarrow> bool" where
  "given None = False"
| "given (Some x) = True"

definition truthy_dataUri :: "dataUri_option \<Rightarrow> bool" where
  "truthy_dataUri u = (case u of NoDataUri \<Rightarrow> False | DataUriString s \<Rightarrow> s \<noteq> [] | _ \<Rightarrow> True)"

definition truthy_url :: "string option \<Rightarrow> bool" where
  "truthy_url u = (case u of None \<Rightarrow> False | Some s \<Rightarrow> s \<noteq> [])"

definition getRemoteWaveformData :: "env \<Rightarrow> init_options \<Rightarrow> call list" where
  "getRemoteWaveformData e options =
     (let dataUri =
        (case opt_dataUri options of
           DataUriObject ab js \<Rightarrow> Some (ab, js)
         | DataUriString s \<Rightarrow>
             (let fmt = (case opt_dataUriDefaultFormat options of
                           None \<Rightarrow> ''json'' | Some f \<Rightarrow> if f = [] then ''json'' else f)
              in Some (if fmt = ''arraybuffer'' then Some s else None,
                       if fmt = ''json'' then Some s else None))
         | _ \<Rightarrow> None)
      in case dataUri of
        None \<Rightarrow> [Failure (TypeError ''Peaks.init(): The dataUri option must be an object'')]
      | Some (ab, js) \<Rightarrow>
          let url = (if window_ArrayBuffer e \<and> truthy_url ab then ab
                     else if window_JSON e then js
                     else if window_ArrayBuffer e then ab else None)
          in if \<not> truthy_url url then
               [Failure (Error
                  ''Peaks.init(): Unable to determine a compatible dataUri format for this browser'')]
             else
               (case xhr_outcome e of
                  Loaded readyState status \<Rightarrow>
                    if readyState \<noteq> 4 then []
                    else if status \<noteq> 200 then
                      [Failure (Error ''Unable to fetch remote data. HTTP status'')]
                    else
                      (case create e of
                         Inl err \<Rightarrow> []
                       | Inr waveformData \<Rightarrow>
                           if channels waveformData \<noteq> 1 \<and> channels waveformData \<noteq> 2 then
                             [Failure (Error
                                ''Peaks.init(): Only mono or stereo waveforms are currently supported'')]
                           else [Success waveformData])
                | TransportError \<Rightarrow> [Failure (Error ''XHR Failed'')]
                | NoEvent \<Rightarrow> []))"

definition buildWaveformFromLocalData :: "env \<Rightarrow> init_options \<Rightarrow> call list" where
  "buildWaveformFromLocalData e options =
     (case opt_waveformData options of
        WaveformDataObject json arraybuffer \<Rightarrow>
          if \<not> (json \<or> arraybuffer) then
            [Failure (Error ''Peaks.init(): Unable to determine a compatible waveformData format'')]
          else
            (case create e of
               Inl err \<Rightarrow> [Failure err]
             | Inr createdWaveformData \<Rightarrow>
                 if channels createdWaveformData \<noteq> 1 \<and> channels createdWaveformData \<noteq> 2 then
                   [Failure (Error
                      ''Peaks.init(): Only mono or stereo waveforms are currently supported'')]
                 else [Success createdWaveformData])
      | _ \<Rightarrow> [Failure (Error ''Peaks.init(): The waveformData option must be an object'')])"

definition requestAudioAndBuildWaveformData :: "env \<Rightarrow> string \<Rightarrow> call list" where
  "requestAudioAndBuildWaveformData e url =
     (if url = [] then []
      else
        (case xhr_outcome e of
           Loaded readyState status \<Rightarrow>
             if readyState \<noteq> 4 then []
             else if status \<noteq> 200 then
               [Failure (Error ''Unable to fetch remote data. HTTP status'')]
             else createFromAudio e
         | TransportError \<Rightarrow> [Failure (Error ''XHR Failed'')]
         | NoEvent \<Rightarrow> []))"

definition buildWaveformDataUsingWebAudio :: "env \<Rightarrow> webAudio_option \<Rightarrow> call list" where
  "buildWaveformDataUsingWebAudio e webAudio =
     (if wa_audioContext webAudio \<noteq> AudioContextInstance then
        [Failure (TypeError
           ''Peaks.init(): The webAudio.audioContext option must be a valid AudioContext'')]
      else if currentSrc e \<noteq> [] then requestAudioAndBuildWaveformData e (currentSrc e)
      else
        (case canplay e of
           None \<Rightarrow> []
         | Some src \<Rightarrow> requestAudioAndBuildWaveformData e src))"

definition buildWaveformDataFromAudioBuffer :: "env \<Rightarrow> webAudio_option \<Rightarrow> call list" where
  "buildWaveformDataFromAudioBuffer e webAudio = createFromAudio e"

text \<open>\<^verbatim>\<open>init\<close> returns the calls made to the completion callback, in order.\<close>

definition init :: "env \<Rightarrow> init_options \<Rightarrow> call list" where
  "init e options =
     (let dataUri = truthy_dataUri (opt_dataUri options);
          waveformData = (opt_waveformData options \<noteq> NoWaveformData);
          audio = (given (opt_webAudio options) \<or> given (opt_audioContext options))
      in if (dataUri \<and> audio) \<or> (waveformData \<and> audio) \<or> (dataUri \<and> waveformData) then
           [Failure (TypeError
              ''Peaks.init(): You may only pass one source (webAudio, dataUri, or waveformData) to render waveform data.'')]
         else
           let webAudio =
                 (case opt_audioContext options of
                    Some c \<Rightarrow> Some \<lparr>wa_audioContext = c, wa_audioBuffer = False\<rparr>
                  | None \<Rightarrow> opt_webAudio options)
           in if dataUri then getRemoteWaveformData e options
              else if waveformData then buildWaveformFromLocalData e options
              else
                (case webAudio of
                   Some wa \<Rightarrow>
                     if wa_audioBuffer wa then buildWaveformDataFromAudioBuffer e wa
                     else buildWaveformDataUsingWebAudio e wa
                 | None \<Rightarrow>
                     [Failure (Error
                        ''Peaks.init(): You must pass an audioContext, or dataUri, or waveformData to render waveform data'')]))"

section \<open>Notions used to state the properties\<close>

text \<open>The pair that \<^verbatim>\<open>min_sample\<close> and \<^verbatim>\<open>max_sample\<close> read for pixel \<open>j\<close>.\<close>

definition window_pair :: "VirtualChannel \<Rightarrow> int \<Rightarrow> jsval \<times> jsval" where
  "window_pair ch j =
     (aget (data ch) ((j - dataOffset ch) * 2), aget (data ch) ((j - dataOffset ch) * 2 + 1))"

text \<open>A pair of two numbers is ordered when the first is at most the second.\<close>

fun pair_ordered :: "jsval \<Rightarrow> jsval \<Rightarrow> bool" where
  "pair_ordered (Num a) (Num b) = (a \<le> b)"
| "pair_ordered _ _ = True"

text \<open>A waveform is ordered when every pair it holds is: one pair per index of the waveform.\<close>

definition wave_ordered :: "WaveformData \<Rightarrow> bool" where
  "wave_ordered wd =
     (\<forall>i. index_in_wave wd i \<longrightarrow>
        pair_ordered (channel_min_sample wd i) (channel_max_sample wd i))"

definition window_ordered :: "VirtualChannel \<Rightarrow> bool" where
  "window_ordered ch = (\<forall>k. pair_ordered (elems (data ch) (k * 2)) (elems (data ch) (k * 2 + 1)))"

text \<open>A response, once resampled to the view's samples per pixel, is ordered.\<close>

fun resampled_ordered :: "resampler \<Rightarrow> real \<Rightarrow> event \<Rightarrow> bool" where
  "resampled_ordered resampler spp (Load h status waveformData) =
     wave_ordered (resampler waveformData spp)"
| "resampled_ordered resampler spp _ = True"

text \<open>
  The requests other than the latest have all been aborted or have completed, and the latest
  belongs to the resident window.
\<close>

definition latest_only :: "world \<Rightarrow> bool" where
  "latest_only w =
     (case xhr (chan w) of
        None \<Rightarrow> requests w = []
      | Some h \<Rightarrow>
          Suc h = length (requests w) \<and>
          rq_from (requests w ! h) = dataOffset (chan w) \<and>
          (\<forall>k<h. rq_aborted (requests w ! k) \<or> rq_done (requests w ! k)))"

subsection \<open>Concrete waveforms\<close>

text \<open>
  A mono waveform of 1000 points at 512 samples per pixel and 48000 samples per second,
  with \<open>-1\<close> and \<open>1\<close> as minimum and maximum everywhere, and the same at 44100 samples per
  second and with two channels.
\<close>

definition base_wave :: WaveformData where
  "base_wave =
     \<lparr>sample_rate = 48000, scale = 512, length_wd = 1000, duration = 1000 * 512 / 48000,
      channels = 1,
      channel_min_sample = (\<lambda>i. if 0 \<le> i \<and> i < 1000 then Num (- 1) else Undefined),
      channel_max_sample = (\<lambda>i. if 0 \<le> i \<and> i < 1000 then Num 1 else Undefined)\<rparr>"

definition cd_wave :: WaveformData where
  "cd_wave = base_wave\<lparr>sample_rate := 44100, scale := 441, duration := 10\<rparr>"

definition stereo_wave :: WaveformData where
  "stereo_wave = base_wave\<lparr>channels := 2\<rparr>"

definition a_provider :: "real \<Rightarrow> real \<Rightarrow> string" where
  "a_provider fromSecs toSecs = ''peakshq''"

text \<open>The view of \<open>base_wave\<close> at 5000 pixels: 102.4 samples per pixel.\<close>

definition fine_channel :: VirtualChannel where
  "fine_channel = new_VirtualChannel base_wave (1024 / 10) a_provider True"

text \<open>
  A detail response of 4000 points at one sample per pixel, with \<open>-7\<close> and \<open>7\<close> as minimum
  and maximum everywhere; the same response at two samples per pixel and at the 102.4 of
  \<open>fine_channel\<close>.
\<close>

definition detail_wave :: WaveformData where
  "detail_wave =
     \<lparr>sample_rate = 48000, scale = 1, length_wd = 4000, duration = 4000 / 48000, channels = 1,
      channel_min_sample = (\<lambda>i. if 0 \<le> i \<and> i < 4000 then Num (- 7) else Undefined),
      channel_max_sample = (\<lambda>i. if 0 \<le> i \<and> i < 4000 then Num 7 else Undefined)\<rparr>"

definition coarse_detail :: WaveformData where
  "coarse_detail = detail_wave\<lparr>scale := 2\<rparr>"

definition fine_detail :: WaveformData where
  "fine_detail = detail_wave\<lparr>scale := 1024 / 10\<rparr>"

text \<open>
  Three instances of the library's \<^verbatim>\<open>resample\<close>, each for the case it is used in.
  Asked for twice the response's scale, the library merges the points two by two: half as
  many points, and on a response of constant minimum and maximum the same pair everywhere.
\<close>

definition halved :: resampler where
  "halved waveformData s =
     waveformData\<lparr>scale := s, length_wd := length_wd waveformData div 2,
       channel_min_sample := (\<lambda>i. channel_min_sample waveformData (2 * i)),
       channel_max_sample := (\<lambda>i. channel_max_sample waveformData (2 * i))\<rparr>"

text \<open>Asked for the response's own scale, a whole number, the library keeps every point.\<close>

definition same_scale :: resampler where
  "same_scale waveformData s = waveformData"

text \<open>
  At 102.4 samples per pixel the library's buckets do not line up with the points of a
  response at that scale: one bucket in five, the first among them, receives no point and
  keeps the pair \<open>(127, -128)\<close> that every bucket starts from.  \<open>gapped\<close> is this on a
  response of constant minimum and maximum.
\<close>

definition gapped :: resampler where
  "gapped waveformData s =
     waveformData\<lparr>scale := s,
       channel_min_sample :=
         (\<lambda>i. if i mod 5 = 0 then Num 127 else channel_min_sample waveformData i),
       channel_max_sample :=
         (\<lambda>i. if i mod 5 = 0 then Num (- 128) else channel_max_sample waveformData i)\<rparr>"

definition base_facade :: DynamicResampleWaveform where
  "base_facade = \<lparr>dr_waveformData = base_wave, dr_detailUriProvider = a_provider\<rparr>"

definition stereo_facade :: DynamicResampleWaveform where
  "stereo_facade = \<lparr>dr_waveformData = stereo_wave, dr_detailUriProvider = a_provider\<rparr>"

definition width_5000 :: resample_args where
  "width_5000 = \<lparr>arg_scale = None, arg_width = Some 5000\<rparr>"

definition fine_waveform :: DynamicLoadWaveForm where
  "fine_waveform =
     \<lparr>dl_waveformData = base_wave, dl_length = 5000, dl_samples_per_pixel = 1024 / 10,
      dl_channel = fine_channel\<rparr>"

text \<open>The channel after the renderer has read pixel 5000: the window is \<open>[3000, 7000)\<close>.\<close>

definition at_5000 :: world where
  "at_5000 = ensureIndexAvailable (new_world fine_channel) 5000"

text \<open>
  Options that name a Web Audio context only, on a page whose media element has no source,
  before and after \<^verbatim>\<open>player.canplay\<close>.
\<close>

definition webAudio_only :: init_options where
  "webAudio_only =
     \<lparr>opt_dataUri = NoDataUri, opt_dataUriDefaultFormat = None,
      opt_waveformData = NoWaveformData,
      opt_webAudio = Some \<lparr>wa_audioContext = AudioContextInstance, wa_audioBuffer = False\<rparr>,
      opt_audioContext = None\<rparr>"

definition no_media_source :: env where
  "no_media_source =
     \<lparr>window_ArrayBuffer = True, window_JSON = True, currentSrc = [], canplay = Some [],
      xhr_outcome = Loaded 4 200, create = Inr base_wave, createFromAudio = [Success base_wave]\<rparr>"

text \<open>The window \<open>[3000, 7000)\<close> after its detail request came back with status 404.\<close>

definition after_404 :: world where
  "after_404 = deliver gapped at_5000 (Load 0 404 fine_detail)"

text \<open>
  The view of \<open>base_wave\<close> at 256000 pixels, two samples per pixel, and its state after the
  renderer has read pixel 5000.
\<close>

definition coarse_channel :: VirtualChannel where
  "coarse_channel = new_VirtualChannel base_wave 2 a_provider True"

definition two_per_pixel :: world where
  "two_per_pixel = ensureIndexAvailable (new_world coarse_channel) 5000"

text \<open>
  The renderer reads pixel 5000 and then pixel 500 of \<open>fine_channel\<close>: the second read
  replaces the window \<open>[3000, 7000)\<close> by \<open>[-1500, 2500)\<close> and aborts the first request.
\<close>

definition moved_on :: world where
  "moved_on = run gapped (new_world fine_channel) [Access 5000, Access 500]"

text \<open>
  The window \<open>[3000, 7000)\<close> of each view after its detail request loaded a response at the
  view's scale.
\<close>

definition loaded :: world where
  "loaded = run same_scale (new_world coarse_channel) [Access 5000, Load 0 200 coarse_detail]"

definition loaded_fine :: world where
  "loaded_fine = run gapped (new_world fine_channel) [Access 5000, Load 0 200 fine_detail]"

section \<open>Arrays and the two loops\<close>

lemma alen_aput: "alen (aput a k v) = max (alen a) (k + 1)"
  by (simp add: aput_def)

lemma elems_aput: "elems (aput a k v) j = (if j = k then v else elems a j)"
  by (simp add: aput_def)

lemma alen_seed_step:
  assumes "lo \<le> i" and "i < hi" and "alen d = (hi - lo) * 2"
  shows "alen (seed_step ch lo i d) = (hi - lo) * 2"
  using assms by (simp add: seed_step_def alen_aput)

lemma elems_seed_step_other:
  assumes "k \<noteq> (i - lo) * 2" and "k \<noteq> (i - lo) * 2 + 1"
  shows "elems (seed_step ch lo i d) k = elems d k"
  using assms by (simp add: seed_step_def elems_aput)

lemma alen_seed_loop:
  assumes "lo \<le> i" and "alen d = (hi - lo) * 2"
  shows "alen (seed_loop ch lo hi i d) = (hi - lo) * 2"
  using assms
proof (induction ch lo hi i d rule: seed_loop.induct)
  case (1 ch lo hi i newData)
  show ?case
  proof (cases "i < hi")
    case True
    then have "alen (seed_step ch lo i newData) = (hi - lo) * 2"
      using "1.prems" by (simp add: alen_seed_step)
    with True "1.IH" "1.prems" show ?thesis
      by (subst seed_loop.simps) simp
  next
    case False
    with "1.prems" show ?thesis by (subst seed_loop.simps) simp
  qed
qed

lemma elems_seed_loop_below:
  assumes "k < (i - lo) * 2"
  shows "elems (seed_loop ch lo hi i d) k = elems d k"
  using assms
proof (induction ch lo hi i d rule: seed_loop.induct)
  case (1 ch lo hi i newData)
  show ?case
  proof (cases "i < hi")
    case True
    have "elems (seed_loop ch lo hi (i + 1) (seed_step ch lo i newData)) k
            = elems (seed_step ch lo i newData) k"
      using True "1.prems" by (intro "1.IH") auto
    also have "\<dots> = elems newData k"
      using "1.prems" by (intro elems_seed_step_other) auto
    finally show ?thesis using True by (subst seed_loop.simps) simp
  next
    case False
    then show ?thesis by (subst seed_loop.simps) simp
  qed
qed

lemma elems_seed_loop_at:
  assumes "i \<le> j" and "j < hi" and "k = (j - lo) * 2 \<or> k = (j - lo) * 2 + 1"
  shows "elems (seed_loop ch lo hi i d) k = elems (seed_step ch lo j d) k"
  using assms
proof (induction ch lo hi i d rule: seed_loop.induct)
  case (1 ch lo hi i newData)
  have run: "seed_loop ch lo hi i newData
               = seed_loop ch lo hi (i + 1) (seed_step ch lo i newData)"
    using "1.prems" by (subst seed_loop.simps) simp
  show ?case
  proof (cases "i = j")
    case True
    have "k < (i + 1 - lo) * 2" using True "1.prems" by auto
    then show ?thesis using True run by (simp add: elems_seed_loop_below)
  next
    case False
    then have "i + 1 \<le> j" using "1.prems" by simp
    moreover have "i < hi" using "1.prems" by simp
    ultimately have "elems (seed_loop ch lo hi (i + 1) (seed_step ch lo i newData)) k
        = elems (seed_step ch lo j (seed_step ch lo i newData)) k"
      using "1.IH" "1.prems" by blast
    also have "\<dots> = elems (seed_step ch lo j newData) k"
      using False "1.prems"(3) by (auto simp: seed_step_def elems_aput)
    finally show ?thesis using run by simp
  qed
qed

lemma alen_copy_loop:
  assumes "n * 2 \<le> alen d"
  shows "alen (fst (copy_loop c i n d)) = alen d"
  using assms
proof (induction c i n d rule: copy_loop.induct)
  case (1 c i n d)
  show ?case
  proof (cases "i < n \<and> index_in_wave c i")
    case True
    let ?d = "aput (aput d (i * 2) (channel_min_sample c i)) (i * 2 + 1) (channel_max_sample c i)"
    have "alen ?d = alen d"
      using True "1.prems" by (simp add: alen_aput index_in_wave_def)
    with True "1.IH" "1.prems" show ?thesis
      by (subst copy_loop.simps) simp
  next
    case False
    then show ?thesis by (subst copy_loop.simps) auto
  qed
qed

lemma elems_copy_loop_below:
  assumes "k < i * 2"
  shows "elems (fst (copy_loop c i n d)) k = elems d k"
  using assms
proof (induction c i n d rule: copy_loop.induct)
  case (1 c i n d)
  show ?case
  proof (cases "i < n \<and> index_in_wave c i")
    case True
    let ?d = "aput (aput d (i * 2) (channel_min_sample c i)) (i * 2 + 1) (channel_max_sample c i)"
    have "elems (fst (copy_loop c (i + 1) n ?d)) k = elems ?d k"
      using True "1.prems" by (intro "1.IH") auto
    also have "\<dots> = elems d k"
      using "1.prems" by (simp add: elems_aput)
    finally show ?thesis using True by (subst copy_loop.simps) simp
  next
    case False
    then show ?thesis by (subst copy_loop.simps) auto
  qed
qed

lemma elems_copy_loop_above:
  assumes "n * 2 \<le> k \<or> length_wd c * 2 \<le> k"
  shows "elems (fst (copy_loop c i n d)) k = elems d k"
  using assms
proof (induction c i n d rule: copy_loop.induct)
  case (1 c i n d)
  show ?case
  proof (cases "i < n \<and> index_in_wave c i")
    case True
    let ?d = "aput (aput d (i * 2) (channel_min_sample c i)) (i * 2 + 1) (channel_max_sample c i)"
    have "elems (fst (copy_loop c (i + 1) n ?d)) k = elems ?d k"
      using True "1.prems" by (intro "1.IH") auto
    also have "\<dots> = elems d k"
      using True "1.prems" by (auto simp: elems_aput index_in_wave_def)
    finally show ?thesis using True by (subst copy_loop.simps) simp
  next
    case False
    then show ?thesis by (subst copy_loop.simps) auto
  qed
qed

lemma elems_copy_loop_at:
  assumes "0 \<le> i" and "i \<le> j" and "j < n" and "index_in_wave c j"
  shows "elems (fst (copy_loop c i n d)) (j * 2) = channel_min_sample c j \<and>
         elems (fst (copy_loop c i n d)) (j * 2 + 1) = channel_max_sample c j"
  using assms
proof (induction c i n d rule: copy_loop.induct)
  case (1 c i n d)
  let ?d = "aput (aput d (i * 2) (channel_min_sample c i)) (i * 2 + 1) (channel_max_sample c i)"
  have here: "i < n" "index_in_wave c i"
    using "1.prems" by (simp_all add: index_in_wave_def)
  have run: "copy_loop c i n d = copy_loop c (i + 1) n ?d"
    using here by (subst copy_loop.simps) simp
  show ?case
  proof (cases "i = j")
    case True
    then show ?thesis using run by (simp add: elems_copy_loop_below elems_aput)
  next
    case False
    then show ?thesis using run here "1.IH" "1.prems" by simp
  qed
qed

lemma thrown_copy_loop:
  assumes "0 \<le> i"
  shows "snd (copy_loop c i n d) = (if i < n \<and> length_wd c < n then Some RangeError else None)"
  using assms
proof (induction c i n d rule: copy_loop.induct)
  case (1 c i n d)
  show ?case
  proof (cases "i < n")
    case True
    show ?thesis
    proof (cases "index_in_wave c i")
      case True
      let ?d = "aput (aput d (i * 2) (channel_min_sample c i)) (i * 2 + 1) (channel_max_sample c i)"
      have "snd (copy_loop c (i + 1) n ?d)
          = (if i + 1 < n \<and> length_wd c < n then Some RangeError else None)"
        using \<open>i < n\<close> True "1.prems" by (intro "1.IH") auto
      moreover have "length_wd c < n \<longrightarrow> i + 1 < n"
        using True by (simp add: index_in_wave_def)
      ultimately show ?thesis
        using \<open>i < n\<close> True by (subst copy_loop.simps) auto
    next
      case False
      then have "length_wd c < n"
        using \<open>i < n\<close> "1.prems" by (simp add: index_in_wave_def)
      then show ?thesis
        using \<open>i < n\<close> False by (subst copy_loop.simps) simp
    qed
  next
    case False
    then show ?thesis by (subst copy_loop.simps) simp
  qed
qed

section \<open>Refreshing the window\<close>

lemma length_abort: "length (abort h rs) = length rs"
  by (simp add: abort_def)

lemma nth_abort:
  "k < length rs \<Longrightarrow> abort h rs ! k =
     (if k = h \<and> \<not> rq_done (rs ! h) then (rs ! h)\<lparr>rq_aborted := True\<rparr> else rs ! k)"
  by (simp add: abort_def nth_list_update)

lemma ensure_noop: "already_available (chan w) index \<Longrightarrow> ensureIndexAvailable w index = w"
  by (simp add: ensureIndexAvailable_def)

lemma length_aborted_prev: "length (aborted_prev w) = length (requests w)"
  by (simp add: aborted_prev_def length_abort split: option.split)

lemma ensure_refresh:
  assumes "\<not> already_available (chan w) index"
  shows "ensureIndexAvailable w index =
     w\<lparr>chan := (chan w)\<lparr>data := seed_loop (chan w) (index - 2000) (index + 2000) (index - 2000)
                                  (new_Array 8000),
                        dataOffset := index - 2000, xhr := Some (length (requests w))\<rparr>,
       requests := aborted_prev w @
         [\<lparr>rq_from = index - 2000, rq_to = index + 2000,
           rq_url = detailUriProvider (chan w)
                      (real_of_int (index - 2000) * samples_per_pixel (chan w) / 48000)
                      (real_of_int (index + 2000) * samples_per_pixel (chan w) / 48000),
           rq_aborted = False, rq_done = False\<rparr>]\<rparr>"
  using assms
  by (simp add: ensureIndexAvailable_def Let_def maxWindowSize_def length_aborted_prev)

lemma alen_new_Array: "alen (new_Array n) = n"
  by (simp add: new_Array_def)

lemma elems_new_Array: "elems (new_Array n) k = Undefined"
  by (simp add: new_Array_def)

lemma alen_ensure:
  assumes "\<not> already_available (chan w) index"
  shows "alen (data (chan (ensureIndexAvailable w index))) = 8000"
  using alen_seed_loop [of "index - 2000" "index - 2000" "new_Array 8000" "index + 2000" "chan w"]
  by (simp add: ensure_refresh [OF assms] alen_new_Array)

lemma dataOffset_ensure:
  assumes "\<not> already_available (chan w) index"
  shows "dataOffset (chan (ensureIndexAvailable w index)) = index - 2000"
  by (simp add: ensure_refresh [OF assms])

lemma seed_step_new:
  "elems (seed_step ch lo j (new_Array n)) ((j - lo) * 2) =
     (if in_range ch j then aget (data ch) ((j - dataOffset ch) * 2)
      else if seed_in_bounds ch j
        then channel_min_sample (originalWaveform ch) (sampleIdxInOriginalWave ch j)
      else Undefined)"
  "elems (seed_step ch lo j (new_Array n)) ((j - lo) * 2 + 1) =
     (if in_range ch j then aget (data ch) ((j - dataOffset ch) * 2 + 1)
      else if seed_in_bounds ch j
        then channel_max_sample (originalWaveform ch) (sampleIdxInOriginalWave ch j)
      else Undefined)"
  by (simp_all add: seed_step_def elems_aput elems_new_Array)

lemma window_pair_ensure:
  assumes "\<not> already_available (chan w) index"
    and "index - 2000 \<le> j" and "j < index + 2000"
  shows "window_pair (chan (ensureIndexAvailable w index)) j =
     (if in_range (chan w) j then window_pair (chan w) j
      else if seed_in_bounds (chan w) j then
        (channel_min_sample (originalWaveform (chan w)) (sampleIdxInOriginalWave (chan w) j),
         channel_max_sample (originalWaveform (chan w)) (sampleIdxInOriginalWave (chan w) j))
      else (Undefined, Undefined))"
proof -
  let ?d = "seed_loop (chan w) (index - 2000) (index + 2000) (index - 2000) (new_Array 8000)"
  have len: "alen ?d = 8000"
    using alen_seed_loop [of "index - 2000" "index - 2000" "new_Array 8000" "index + 2000" "chan w"]
    by (simp add: alen_new_Array)
  have a: "elems ?d ((j - (index - 2000)) * 2)
      = elems (seed_step (chan w) (index - 2000) j (new_Array 8000)) ((j - (index - 2000)) * 2)"
    using assms by (intro elems_seed_loop_at) auto
  have b: "elems ?d ((j - (index - 2000)) * 2 + 1)
      = elems (seed_step (chan w) (index - 2000) j (new_Array 8000)) ((j - (index - 2000)) * 2 + 1)"
    using assms by (intro elems_seed_loop_at) auto
  have "window_pair (chan (ensureIndexAvailable w index)) j
      = (elems ?d ((j - (index - 2000)) * 2), elems ?d ((j - (index - 2000)) * 2 + 1))"
    using assms len by (simp add: ensure_refresh [OF assms(1)] window_pair_def aget_def)
  then show ?thesis
    unfolding a b seed_step_new by (simp add: window_pair_def)
qed

section \<open>Resampling: local or virtual\<close>

lemma spp_le_scale:
  fixes s :: real
  assumes "0 \<le> s" and "0 \<le> l" and "l < len"
  shows "s * l / len \<le> s"
proof -
  have "l / len \<le> 1" using assms by simp
  then have "s * (l / len) \<le> s * 1" using assms(1) by (rule mult_left_mono)
  then show ?thesis by simp
qed

text \<open>
  Claim C2, as amended.  \<^verbatim>\<open>resample(args, callback)\<close> on a
  \<^verbatim>\<open>DynamicResampleWaveform\<close>: the target length is
  \<open>duration * sample_rate / args.scale\<close> when \<^verbatim>\<open>args.scale\<close> is given (and not zero),
  else \<^verbatim>\<open>args.width\<close>.  The result is a \<^verbatim>\<open>DynamicLoadWaveForm\<close> exactly when the
  target length exceeds the base waveform's length and the base waveform has one channel;
  with another channel count the constructor throws.  The virtual waveform has the target
  length and the scale \<open>backingScale * backingLength / targetLength\<close>, which is at most the
  backing scale (for a scale and a length that are not negative).  Otherwise the library's
  local \<^verbatim>\<open>resample\<close> is returned.
\<close>

theorem C2_resample_decision:
  assumes "target_length w args = Some len"
    and "0 \<le> scale (dr_waveformData w)" and "0 \<le> length_wd (dr_waveformData w)"
  shows "(arg_scale args = Some s \<and> s \<noteq> 0 \<longrightarrow>
            len = duration (dr_waveformData w) * sample_rate (dr_waveformData w) / s) \<and>
         (arg_scale args = None \<or> arg_scale args = Some 0 \<longrightarrow> arg_width args = Some len) \<and>
         ((\<exists>v. resample w args cb = Inr (Virtual v)) \<longleftrightarrow>
            len > real_of_int (length_wd (dr_waveformData w)) \<and> channels (dr_waveformData w) = 1) \<and>
         (len > real_of_int (length_wd (dr_waveformData w)) \<and> channels (dr_waveformData w) = 1 \<longrightarrow>
            resample w args cb =
              Inr (Virtual
                \<lparr>dl_waveformData = dr_waveformData w, dl_length = len,
                 dl_samples_per_pixel =
                   scale (dr_waveformData w) * real_of_int (length_wd (dr_waveformData w)) / len,
                 dl_channel =
                   new_VirtualChannel (dr_waveformData w)
                     (scale (dr_waveformData w) * real_of_int (length_wd (dr_waveformData w)) / len)
                     (dr_detailUriProvider w) cb\<rparr>) \<and>
            scale (dr_waveformData w) * real_of_int (length_wd (dr_waveformData w)) / len
              \<le> scale (dr_waveformData w)) \<and>
         (len > real_of_int (length_wd (dr_waveformData w)) \<and> channels (dr_waveformData w) \<noteq> 1 \<longrightarrow>
            resample w args cb = Inl ''No support for multiple channels'') \<and>
         (len \<le> real_of_int (length_wd (dr_waveformData w)) \<longrightarrow>
            resample w args cb = Inr (Downsampled (dr_waveformData w) args))"
proof -
  let ?wd = "dr_waveformData w"
  have t1: "arg_scale args = Some s \<and> s \<noteq> 0 \<longrightarrow> len = duration ?wd * sample_rate ?wd / s"
    using assms(1) by (auto simp: target_length_def)
  have t2: "arg_scale args = None \<or> arg_scale args = Some 0 \<longrightarrow> arg_width args = Some len"
    using assms(1) by (auto simp: target_length_def)
  have virt: "len > real_of_int (length_wd ?wd) \<and> channels ?wd = 1 \<longrightarrow>
      resample w args cb =
        Inr (Virtual
          \<lparr>dl_waveformData = ?wd, dl_length = len,
           dl_samples_per_pixel = scale ?wd * real_of_int (length_wd ?wd) / len,
           dl_channel = new_VirtualChannel ?wd (scale ?wd * real_of_int (length_wd ?wd) / len)
                          (dr_detailUriProvider w) cb\<rparr>)"
    using assms(1) by (simp add: resample_def new_DynamicLoadWaveForm_def Let_def)
  have le: "len > real_of_int (length_wd ?wd) \<longrightarrow>
      scale ?wd * real_of_int (length_wd ?wd) / len \<le> scale ?wd"
    using assms(2,3) by (auto intro: spp_le_scale)
  have thrown: "len > real_of_int (length_wd ?wd) \<and> channels ?wd \<noteq> 1 \<longrightarrow>
      resample w args cb = Inl ''No support for multiple channels''"
    using assms(1) by (simp add: resample_def new_DynamicLoadWaveForm_def)
  have local: "len \<le> real_of_int (length_wd ?wd) \<longrightarrow>
      resample w args cb = Inr (Downsampled ?wd args)"
    using assms(1) by (simp add: resample_def)
  have iff: "(\<exists>v. resample w args cb = Inr (Virtual v)) \<longleftrightarrow>
      len > real_of_int (length_wd ?wd) \<and> channels ?wd = 1"
  proof (cases "len > real_of_int (length_wd ?wd)")
    case True
    then show ?thesis using virt thrown by (cases "channels ?wd = 1") auto
  next
    case False
    then show ?thesis using local by auto
  qed
  from t1 t2 iff virt le thrown local show ?thesis by blast
qed

text \<open>
  The scenario of the specification: a base of 1000 points at scale 512, asked for a width of
  5000, gives a virtual waveform of length 5000 at 102.4 samples per pixel.
\<close>

theorem C2_resample_decision_witness:
  "resample base_facade width_5000 True = Inr (Virtual fine_waveform) \<and>
   dl_length fine_waveform = 5000 \<and> dl_samples_per_pixel fine_waveform = 102.4 \<and>
   dl_samples_per_pixel fine_waveform \<le> scale base_wave"
proof -
  have t: "target_length base_facade width_5000 = Some 5000"
    by (simp add: target_length_def width_5000_def)
  have s: "0 \<le> scale (dr_waveformData base_facade)"
    by (simp add: base_facade_def base_wave_def)
  have l: "0 \<le> length_wd (dr_waveformData base_facade)"
    by (simp add: base_facade_def base_wave_def)
  show ?thesis
    using C2_resample_decision [OF t s l, of 1 True]
    by (simp add: base_facade_def base_wave_def fine_waveform_def fine_channel_def)
qed

text \<open>
  The claim as written fails there: 102.4 is below the backing scale 512, not above it; and a
  base waveform with two channels gets no virtual waveform although the target is longer.
\<close>

theorem C2_scale_below_backing_scale:
  "resample base_facade width_5000 True = Inr (Virtual fine_waveform) \<and>
   dl_samples_per_pixel fine_waveform = 102.4 \<and>
   \<not> dl_samples_per_pixel fine_waveform \<ge> scale base_wave \<and>
   real_of_int (length_wd stereo_wave) < 5000 \<and>
   resample stereo_facade width_5000 True = Inl ''No support for multiple channels''"
  by (simp add: resample_def target_length_def new_DynamicLoadWaveForm_def Let_def base_facade_def
      stereo_facade_def width_5000_def fine_waveform_def fine_channel_def base_wave_def
      stereo_wave_def)

section \<open>Seeding, the guard and the accessors\<close>

lemma ensure_keeps:
  "originalWaveform (chan (ensureIndexAvailable w index)) = originalWaveform (chan w)"
  "samples_per_pixel (chan (ensureIndexAvailable w index)) = samples_per_pixel (chan w)"
  "refreshes (ensureIndexAvailable w index) = refreshes w"
  by (simp_all add: ensureIndexAvailable_def Let_def)

lemma fresh_not_available: "index \<noteq> 0 \<Longrightarrow> \<not> already_available fine_channel index"
  by (simp add: already_available_def fine_channel_def new_VirtualChannel_def alen_new_Array)

lemma fresh_not_in_range: "\<not> in_range fine_channel j"
  by (simp add: in_range_def fine_channel_def new_VirtualChannel_def alen_new_Array)

lemma chan_new_world: "chan (new_world ch) = ch"
  by (simp add: new_world_def)

lemma fine_seed_index:
  "sampleIdxInOriginalWave fine_channel j = \<lfloor>real_of_int j / 5 + 1\<rfloor>"
  by (simp add: sampleIdxInOriginalWave_def Math_round_def fine_channel_def
      new_VirtualChannel_def base_wave_def)

lemma fine_seed_in_bounds: "seed_in_bounds fine_channel j \<longleftrightarrow> - 5 \<le> j \<and> j < 4995"
proof -
  have "seed_in_bounds fine_channel j \<longleftrightarrow>
      0 \<le> \<lfloor>real_of_int j / 5 + 1\<rfloor> \<and> \<lfloor>real_of_int j / 5 + 1\<rfloor> < 1000"
    unfolding seed_in_bounds_def fine_seed_index
    by (simp add: fine_channel_def new_VirtualChannel_def base_wave_def)
  also have "\<dots> \<longleftrightarrow> - 5 \<le> j \<and> j < 4995"
    by (simp add: le_floor_iff floor_less_iff) linarith
  finally show ?thesis .
qed

text \<open>
  Claim C3, as amended.  When \<^verbatim>\<open>ensureIndexAvailable\<close> installs a new window
  \<open>[index - 2000, index + 2000)\<close>, every pixel \<open>j\<close> of it that lay inside the previous
  window keeps its pair; every other pixel takes the backing channel's pair at
  \<open>round(0.5 + j * samples_per_pixel / scale)\<close> when that index is within the backing
  waveform, and is left unpopulated otherwise: nothing is stored for it.
\<close>

theorem C3_seeding:
  assumes "\<not> already_available (chan w) index"
    and "index - maxWindowSize \<le> j" and "j < index + maxWindowSize"
  shows "dataOffset (chan (ensureIndexAvailable w index)) = index - maxWindowSize \<and>
         alen (data (chan (ensureIndexAvailable w index))) = 2 * (2 * maxWindowSize) \<and>
         (in_range (chan w) j \<longrightarrow>
            window_pair (chan (ensureIndexAvailable w index)) j = window_pair (chan w) j) \<and>
         (\<not> in_range (chan w) j \<and> seed_in_bounds (chan w) j \<longrightarrow>
            window_pair (chan (ensureIndexAvailable w index)) j =
              (channel_min_sample (originalWaveform (chan w)) (sampleIdxInOriginalWave (chan w) j),
               channel_max_sample (originalWaveform (chan w)) (sampleIdxInOriginalWave (chan w) j))) \<and>
         (\<not> in_range (chan w) j \<and> \<not> seed_in_bounds (chan w) j \<longrightarrow>
            window_pair (chan (ensureIndexAvailable w index)) j = (Undefined, Undefined)) \<and>
         sampleIdxInOriginalWave (chan w) j =
           \<lfloor>1 / 2 + real_of_int j * samples_per_pixel (chan w) / scale (originalWaveform (chan w))
             + 1 / 2\<rfloor> \<and>
         (seed_in_bounds (chan w) j \<longleftrightarrow>
            scale (originalWaveform (chan w)) \<noteq> 0 \<and> 0 \<le> sampleIdxInOriginalWave (chan w) j \<and>
            sampleIdxInOriginalWave (chan w) j < length_wd (originalWaveform (chan w)))"
proof -
  have lo: "index - 2000 \<le> j" and hi: "j < index + 2000"
    using assms(2,3) by (simp_all add: maxWindowSize_def)
  note pair = window_pair_ensure [OF assms(1) lo hi]
  have "dataOffset (chan (ensureIndexAvailable w index)) = index - maxWindowSize"
    by (simp add: dataOffset_ensure [OF assms(1)] maxWindowSize_def)
  moreover have "alen (data (chan (ensureIndexAvailable w index))) = 2 * (2 * maxWindowSize)"
    by (simp add: alen_ensure [OF assms(1)] maxWindowSize_def)
  moreover have "sampleIdxInOriginalWave (chan w) j =
      \<lfloor>1 / 2 + real_of_int j * samples_per_pixel (chan w) / scale (originalWaveform (chan w))
        + 1 / 2\<rfloor>"
    by (simp add: sampleIdxInOriginalWave_def Math_round_def)
  moreover have "seed_in_bounds (chan w) j \<longleftrightarrow>
      scale (originalWaveform (chan w)) \<noteq> 0 \<and> 0 \<le> sampleIdxInOriginalWave (chan w) j \<and>
      sampleIdxInOriginalWave (chan w) j < length_wd (originalWaveform (chan w))"
    by (simp add: seed_in_bounds_def)
  ultimately show ?thesis using pair by simp
qed

lemma at_5000_window:
  "dataOffset (chan at_5000) = 3000" "alen (data (chan at_5000)) = 8000"
  unfolding at_5000_def
  using dataOffset_ensure [of "new_world fine_channel" 5000]
    alen_ensure [of "new_world fine_channel" 5000] fresh_not_available [of 5000]
  by (simp_all add: chan_new_world)

lemma at_5000_pair:
  assumes "3000 \<le> j" and "j < 7000"
  shows "window_pair (chan at_5000) j =
    (if j < 4995 then (Num (- 1), Num 1) else (Undefined, Undefined))"
proof -
  have n: "\<not> already_available (chan (new_world fine_channel)) 5000"
    by (simp add: chan_new_world fresh_not_available)
  have b: "0 \<le> \<lfloor>real_of_int j / 5 + 1\<rfloor>" "j < 4995 \<Longrightarrow> \<lfloor>real_of_int j / 5 + 1\<rfloor> < 1000"
    using assms by (simp_all add: le_floor_iff floor_less_iff)
  show ?thesis
    unfolding at_5000_def
    using window_pair_ensure [OF n, of j] assms b
    by (simp add: chan_new_world fresh_not_in_range fine_seed_in_bounds fine_seed_index)
      (simp add: fine_channel_def new_VirtualChannel_def base_wave_def)
qed

text \<open>
  After pixel 5000 the window is \<open>[3000, 7000)\<close>, with the pair \<open>(-1, 1)\<close> at every pixel
  below 4995.  Reading pixel 2000 moves the window to \<open>[0, 4000)\<close>: pixel 3500 keeps its
  pair, and pixel 100 takes the backing channel's pair at index 21.
\<close>

theorem C3_seeding_witness:
  "\<not> already_available (chan at_5000) 2000 \<and>
   dataOffset (chan (ensureIndexAvailable at_5000 2000)) = 0 \<and>
   in_range (chan at_5000) 3500 \<and> window_pair (chan at_5000) 3500 = (Num (- 1), Num 1) \<and>
   window_pair (chan (ensureIndexAvailable at_5000 2000)) 3500 = (Num (- 1), Num 1) \<and>
   \<not> in_range (chan at_5000) 100 \<and> seed_in_bounds (chan at_5000) 100 \<and>
   sampleIdxInOriginalWave (chan at_5000) 100 = 21 \<and>
   channel_min_sample (originalWaveform (chan at_5000)) 21 = Num (- 1) \<and>
   channel_max_sample (originalWaveform (chan at_5000)) 21 = Num 1 \<and>
   window_pair (chan (ensureIndexAvailable at_5000 2000)) 100 = (Num (- 1), Num 1)"
proof -
  have n: "\<not> already_available (chan at_5000) 2000"
    by (simp add: already_available_def at_5000_window)
  have k: "originalWaveform (chan at_5000) = base_wave"
    "samples_per_pixel (chan at_5000) = 1024 / 10"
    unfolding at_5000_def
    by (simp_all add: ensure_keeps chan_new_world fine_channel_def new_VirtualChannel_def)
  have r: "in_range (chan at_5000) 3500" "\<not> in_range (chan at_5000) 100"
    by (simp_all add: in_range_def at_5000_window)
  have old: "window_pair (chan at_5000) 3500 = (Num (- 1), Num 1)"
    using at_5000_pair [of 3500] by simp
  have i: "sampleIdxInOriginalWave (chan at_5000) 100 = 21"
    by (simp add: sampleIdxInOriginalWave_def Math_round_def k base_wave_def)
  have b: "seed_in_bounds (chan at_5000) 100"
    unfolding seed_in_bounds_def i by (simp add: k base_wave_def)
  have v: "channel_min_sample (originalWaveform (chan at_5000)) 21 = Num (- 1)"
    "channel_max_sample (originalWaveform (chan at_5000)) 21 = Num 1"
    by (simp_all add: k base_wave_def)
  have kept: "window_pair (chan (ensureIndexAvailable at_5000 2000)) 3500 = (Num (- 1), Num 1)"
    using C3_seeding [OF n, of 3500] r old by (simp add: maxWindowSize_def)
  have seeded: "window_pair (chan (ensureIndexAvailable at_5000 2000)) 100 = (Num (- 1), Num 1)"
    using C3_seeding [OF n, of 100] r b i v by (simp add: maxWindowSize_def)
  have off: "dataOffset (chan (ensureIndexAvailable at_5000 2000)) = 0"
    using C3_seeding [OF n, of 100] by (simp add: maxWindowSize_def)
  show ?thesis
    using n r old i b v kept seeded off by simp
qed

text \<open>
  The claim as written fails for a pixel that maps beyond the backing waveform: its pair is
  not \<open>(0, 0)\<close>.
\<close>

theorem C3_out_of_range_is_not_zero:
  "\<not> in_range fine_channel 99000 \<and> \<not> seed_in_bounds fine_channel 99000 \<and>
   window_pair (chan (ensureIndexAvailable (new_world fine_channel) 100000)) 99000
     = (Undefined, Undefined) \<and>
   window_pair (chan (ensureIndexAvailable (new_world fine_channel) 100000)) 99000
     \<noteq> (Num 0, Num 0)"
proof -
  have n: "\<not> already_available (chan (new_world fine_channel)) 100000"
    by (simp add: chan_new_world fresh_not_available)
  show ?thesis
    using window_pair_ensure [OF n, of 99000]
    by (simp add: chan_new_world fresh_not_in_range fine_seed_in_bounds)
qed

text \<open>
  Claim C4 at a backing waveform of 44100 samples per second, viewed at 441 samples per
  pixel: the window \<open>[100, 4100)\<close> spans the seconds 1 to 41, but the detail provider is
  called with \<open>100 * 441 / 48000\<close> and \<open>4100 * 441 / 48000\<close>.  The source divides by the
  constant 48000, not by the waveform's sample rate.
\<close>

theorem C4_time_range_divides_by_48000:
  "rq_url (last (requests
      (ensureIndexAvailable (new_world (new_VirtualChannel cd_wave 441 provider True)) 2100)))
     = provider (100 * 441 / 48000) (4100 * 441 / 48000) \<and>
   sample_rate cd_wave = 44100 \<and>
   (100 * 441 / 48000 :: real) \<noteq> 100 * 441 / sample_rate cd_wave \<and>
   (4100 * 441 / 48000 :: real) \<noteq> 4100 * 441 / sample_rate cd_wave"
proof -
  let ?w = "new_world (new_VirtualChannel cd_wave 441 provider True)"
  have n: "\<not> already_available (chan ?w) 2100"
    by (simp add: chan_new_world already_available_def new_VirtualChannel_def alen_new_Array)
  have "rq_url (last (requests (ensureIndexAvailable ?w 2100)))
      = provider (100 * 441 / 48000) (4100 * 441 / 48000)"
    unfolding ensure_refresh [OF n] by (simp add: chan_new_world new_VirtualChannel_def)
  then show ?thesis by (simp add: cd_wave_def)
qed

text \<open>
  Claim C5 on a freshly constructed channel, whose window is empty: pixel 0 is not in the
  window, yet \<^verbatim>\<open>ensureIndexAvailable(0)\<close> changes nothing and sends no request.  The
  same happens at the first pixel past a resident window (7000 for \<open>[3000, 7000)\<close>): the
  guard compares with \<^verbatim>\<open><=\<close> where \<^verbatim>\<open>in_range\<close> compares with \<^verbatim>\<open><\<close>.
\<close>

theorem C5_fresh_channel_skips_index_0:
  "\<not> in_range fine_channel 0 \<and>
   ensureIndexAvailable (new_world fine_channel) 0 = new_world fine_channel \<and>
   requests (ensureIndexAvailable (new_world fine_channel) 0) = [] \<and>
   \<not> in_range (chan at_5000) 7000 \<and>
   ensureIndexAvailable at_5000 7000 = at_5000"
proof -
  have a: "already_available (chan (new_world fine_channel)) 0"
    by (simp add: chan_new_world already_available_def fine_channel_def new_VirtualChannel_def
        alen_new_Array)
  have b: "already_available (chan at_5000) 7000"
    by (simp add: already_available_def at_5000_window)
  have c: "\<not> in_range (chan at_5000) 7000"
    by (simp add: in_range_def at_5000_window)
  have d: "requests (new_world fine_channel) = []"
    by (simp add: new_world_def)
  show ?thesis
    unfolding ensure_noop [OF a] ensure_noop [OF b] using c d fresh_not_in_range by simp
qed

text \<open>
  Claim C6 at pixel 100000, which maps beyond the backing waveform, and at pixel 0 of a
  fresh channel: both accessors return \<^verbatim>\<open>undefined\<close>, not the number 0.
\<close>

theorem C6_unpopulated_reads_undefined:
  "snd (min_sample (new_world fine_channel) 100000) = Undefined \<and>
   snd (max_sample (new_world fine_channel) 100000) = Undefined \<and>
   snd (min_sample (new_world fine_channel) 0) = Undefined \<and>
   snd (max_sample (new_world fine_channel) 0) = Undefined"
proof -
  have n: "\<not> already_available (chan (new_world fine_channel)) 100000"
    by (simp add: chan_new_world fresh_not_available)
  have a: "already_available (chan (new_world fine_channel)) 0"
    by (simp add: chan_new_world already_available_def fine_channel_def new_VirtualChannel_def
        alen_new_Array)
  have far: "window_pair (chan (ensureIndexAvailable (new_world fine_channel) 100000)) 100000
      = (Undefined, Undefined)"
    using window_pair_ensure [OF n, of 100000]
    by (simp add: chan_new_world fresh_not_in_range fine_seed_in_bounds)
  have near: "window_pair fine_channel 0 = (Undefined, Undefined)"
    by (simp add: window_pair_def aget_def fine_channel_def new_VirtualChannel_def alen_new_Array)
  show ?thesis
    using far near
    by (simp add: min_sample_def max_sample_def Let_def window_pair_def ensure_noop [OF a]
        chan_new_world)
qed

section \<open>The completion callback of init\<close>

text \<open>
  Claim C9 for options that name a Web Audio context, when the media element has no source
  even after \<^verbatim>\<open>player.canplay\<close>: \<^verbatim>\<open>_requestAudioAndBuildWaveformData\<close> logs and
  returns, and the completion callback is never called.
\<close>

theorem C9_no_callback_without_media_source:
  "init no_media_source webAudio_only = []"
  by (simp add: init_def webAudio_only_def no_media_source_def truthy_dataUri_def
      buildWaveformDataUsingWebAudio_def requestAudioAndBuildWaveformData_def)

section \<open>Failed fetches\<close>

lemma onload_failed:
  assumes "status \<noteq> 200"
  shows "chan (onload rsm w h readyState status wd) = chan w"
    and "refreshes (onload rsm w h readyState status wd) = refreshes w"
    and "requests (onload rsm w h readyState status wd) = requests w"
  using assms by (simp_all add: onload_def)

lemma onload_keeps:
  "requests (onload rsm w h readyState status wd) = requests w"
  "xhr (chan (onload rsm w h readyState status wd)) = xhr (chan w)"
  "dataOffset (chan (onload rsm w h readyState status wd)) = dataOffset (chan w)"
  "originalWaveform (chan (onload rsm w h readyState status wd)) = originalWaveform (chan w)"
  "samples_per_pixel (chan (onload rsm w h readyState status wd)) = samples_per_pixel (chan w)"
  by (simp_all add: onload_def Let_def)

lemma complete_keeps:
  "chan (complete h w) = chan w" "refreshes (complete h w) = refreshes w"
  "length (requests (complete h w)) = length (requests w)"
  by (simp_all add: complete_def)

lemma nth_complete:
  "k < length (requests w) \<Longrightarrow>
     requests (complete h w) ! k =
       (if k = h then (requests w ! h)\<lparr>rq_done := True\<rparr> else requests w ! k)"
  by (simp add: complete_def nth_list_update)

lemma in_flight_complete: "in_flight (complete h w) k \<longleftrightarrow> in_flight w k \<and> k \<noteq> h"
  by (cases "k = h") (simp_all add: in_flight_def complete_keeps nth_complete cong: conj_cong)

lemma in_flight_onload:
  "in_flight (onload rsm w h readyState status wd) k \<longleftrightarrow> in_flight w k"
  by (simp add: in_flight_def onload_keeps)

lemma requests_ensure:
  assumes "\<not> already_available (chan w) index"
  shows "length (requests (ensureIndexAvailable w index)) = Suc (length (requests w))"
    and "in_flight (ensureIndexAvailable w index) (length (requests w))"
  by (simp_all add: ensure_refresh [OF assms] length_aborted_prev in_flight_def nth_append)

text \<open>
  When a detail fetch fails, the channel is as before: for a status other than 200 the
  handler only logs, a transport error has no handler, and an aborted or completed request
  gets no event.  The window's data and offset stay, the refresh callback is not called, no
  request is added, nothing returns in flight.  An access that the guard of
  \<^verbatim>\<open>ensureIndexAvailable\<close> lets through issues a new request.
\<close>

lemma failed_fetch_changes_nothing:
  assumes "status \<noteq> 200"
    and "w' = deliver rsm w (Load h status waveformData) \<or> w' = deliver rsm w (Failed h)"
  shows "chan w' = chan w \<and> refreshes w' = refreshes w \<and>
         length (requests w') = length (requests w) \<and>
         (\<forall>k. in_flight w' k \<longrightarrow> in_flight w k) \<and>
         (\<not> in_flight w h \<longrightarrow> w' = w) \<and>
         chan (onload rsm w h readyState status waveformData) = chan w \<and>
         refreshes (onload rsm w h readyState status waveformData) = refreshes w \<and>
         requests (onload rsm w h readyState status waveformData) = requests w \<and>
         (\<not> already_available (chan w') index \<longrightarrow>
            length (requests (ensureIndexAvailable w' index)) = Suc (length (requests w')) \<and>
            in_flight (ensureIndexAvailable w' index) (length (requests w')))"
proof -
  have "chan w' = chan w \<and> refreshes w' = refreshes w \<and>
      length (requests w') = length (requests w) \<and> (\<forall>k. in_flight w' k \<longrightarrow> in_flight w k) \<and>
      (\<not> in_flight w h \<longrightarrow> w' = w)"
    using assms
    by (auto simp: onload_failed onload_keeps complete_keeps in_flight_onload in_flight_complete
        split: if_splits)
  moreover have "\<not> already_available (chan w') index \<longrightarrow>
      length (requests (ensureIndexAvailable w' index)) = Suc (length (requests w')) \<and>
      in_flight (ensureIndexAvailable w' index) (length (requests w'))"
    using requests_ensure by blast
  ultimately show ?thesis
    using assms(1) by (simp add: onload_failed)
qed

lemma at_5000_requests:
  "length (requests at_5000) = 1" "in_flight at_5000 0" "xhr (chan at_5000) = Some 0"
proof -
  have n: "\<not> already_available (chan (new_world fine_channel)) 5000"
    by (simp add: chan_new_world fresh_not_available)
  have e: "requests (new_world fine_channel) = []" by (simp add: new_world_def)
  show "length (requests at_5000) = 1" "in_flight at_5000 0"
    unfolding at_5000_def using requests_ensure [OF n] e by simp_all
  show "xhr (chan at_5000) = Some 0"
    unfolding at_5000_def ensure_refresh [OF n] using e by simp
qed

text \<open>
  Claim C7 after the request of the window \<open>[3000, 7000)\<close> came back with status 404: pixel
  7000 is outside the window, no fetch is in flight, and yet reading pixel 7000 changes
  nothing and sends no request.  The later access does not trigger the fresh attempt; the
  guard of \<^verbatim>\<open>ensureIndexAvailable\<close> compares with \<^verbatim>\<open><=\<close> where \<^verbatim>\<open>in_range\<close>
  compares with \<^verbatim>\<open><\<close>.
\<close>

theorem C7_no_retry_at_window_end:
  "\<not> in_range (chan after_404) 7000 \<and> \<not> in_flight after_404 0 \<and>
   ensureIndexAvailable after_404 7000 = after_404 \<and> length (requests after_404) = 1"
proof -
  have c: "chan after_404 = chan at_5000"
    by (simp add: after_404_def at_5000_requests onload_failed complete_keeps)
  have a: "already_available (chan after_404) 7000"
    unfolding c by (simp add: already_available_def at_5000_window)
  have r: "\<not> in_range (chan after_404) 7000"
    unfolding c by (simp add: in_range_def at_5000_window)
  have f: "\<not> in_flight after_404 0"
    by (simp add: after_404_def at_5000_requests in_flight_onload in_flight_complete)
  have l: "length (requests after_404) = 1"
    by (simp add: after_404_def at_5000_requests onload_keeps complete_keeps)
  show ?thesis using r f l by (simp add: ensure_noop [OF a])
qed

section \<open>Installing a response\<close>

lemma data_onload:
  assumes "h < length (requests w)" and "channels wd = 1"
  shows "data (chan (onload rsm w h 4 200 wd)) =
     fst (copy_loop (rsm wd (samples_per_pixel (chan w))) 0
       (numSamplesToCopy (requests w ! h) wd) (data (chan w)))"
  using assms by (simp add: onload_def Let_def)

lemma refreshes_onload:
  assumes "h < length (requests w)" and "channels wd = 1"
  shows "refreshes (onload rsm w h 4 200 wd) =
     (if refreshCallback (chan w) \<and>
         \<not> (0 < numSamplesToCopy (requests w ! h) wd \<and>
            length_wd (rsm wd (samples_per_pixel (chan w))) < numSamplesToCopy (requests w ! h) wd)
      then Suc (refreshes w) else refreshes w)"
  using assms by (auto simp: onload_def Let_def thrown_copy_loop)

lemma window_pair_onload:
  assumes "h < length (requests w)" and "channels wd = 1"
    and "numSamplesToCopy (requests w ! h) wd * 2 \<le> alen (data (chan w))"
    and "0 \<le> k" and "k < numSamplesToCopy (requests w ! h) wd"
    and "k < length_wd (rsm wd (samples_per_pixel (chan w)))"
  shows "window_pair (chan (onload rsm w h 4 200 wd)) (dataOffset (chan w) + k) =
     (channel_min_sample (rsm wd (samples_per_pixel (chan w))) k,
      channel_max_sample (rsm wd (samples_per_pixel (chan w))) k)"
proof -
  let ?c = "rsm wd (samples_per_pixel (chan w))"
  let ?n = "numSamplesToCopy (requests w ! h) wd"
  have len: "alen (fst (copy_loop ?c 0 ?n (data (chan w)))) = alen (data (chan w))"
    using assms(3) by (rule alen_copy_loop)
  have at: "elems (fst (copy_loop ?c 0 ?n (data (chan w)))) (k * 2) = channel_min_sample ?c k \<and>
      elems (fst (copy_loop ?c 0 ?n (data (chan w)))) (k * 2 + 1) = channel_max_sample ?c k"
    using assms(4,5,6) by (intro elems_copy_loop_at) (simp_all add: index_in_wave_def)
  show ?thesis
    using assms(3,4,5) at len
    by (simp add: window_pair_def onload_keeps data_onload [OF assms(1,2)] aget_def)
qed

lemma window_pair_onload_kept:
  assumes "h < length (requests w)" and "channels wd = 1"
    and "numSamplesToCopy (requests w ! h) wd * 2 \<le> alen (data (chan w))"
    and "numSamplesToCopy (requests w ! h) wd \<le> k \<or>
         length_wd (rsm wd (samples_per_pixel (chan w))) \<le> k"
  shows "window_pair (chan (onload rsm w h 4 200 wd)) (dataOffset (chan w) + k) =
     window_pair (chan w) (dataOffset (chan w) + k)"
proof -
  let ?c = "rsm wd (samples_per_pixel (chan w))"
  let ?n = "numSamplesToCopy (requests w ! h) wd"
  have len: "alen (fst (copy_loop ?c 0 ?n (data (chan w)))) = alen (data (chan w))"
    using assms(3) by (rule alen_copy_loop)
  have "elems (fst (copy_loop ?c 0 ?n (data (chan w)))) (k * 2) = elems (data (chan w)) (k * 2)"
    using assms(4) by (intro elems_copy_loop_above) auto
  moreover have "elems (fst (copy_loop ?c 0 ?n (data (chan w)))) (k * 2 + 1)
      = elems (data (chan w)) (k * 2 + 1)"
    using assms(4) by (intro elems_copy_loop_above) auto
  ultimately show ?thesis
    using len by (simp add: window_pair_def onload_keeps data_onload [OF assms(1,2)] aget_def)
qed

lemma two_per_pixel_fresh: "\<not> already_available (chan (new_world coarse_channel)) 5000"
  by (simp add: chan_new_world already_available_def coarse_channel_def new_VirtualChannel_def
      alen_new_Array)

lemma latest_request_span:
  assumes "\<not> already_available (chan w) index"
  shows "rq_from (requests (ensureIndexAvailable w index) ! length (requests w)) = index - 2000"
    and "rq_to (requests (ensureIndexAvailable w index) ! length (requests w)) = index + 2000"
  by (simp_all add: ensure_refresh [OF assms] nth_append length_aborted_prev)

lemma requests_new_world: "requests (new_world ch) = []"
  by (simp add: new_world_def)

lemma two_per_pixel_window:
  "dataOffset (chan two_per_pixel) = 3000" "alen (data (chan two_per_pixel)) = 8000"
  "samples_per_pixel (chan two_per_pixel) = 2" "refreshCallback (chan two_per_pixel)"
  "rq_from (requests two_per_pixel ! 0) = 3000" "rq_to (requests two_per_pixel ! 0) = 7000"
  "length (requests two_per_pixel) = 1" "in_flight two_per_pixel 0"
proof -
  note n = two_per_pixel_fresh
  show "dataOffset (chan two_per_pixel) = 3000"
    unfolding two_per_pixel_def by (simp add: dataOffset_ensure [OF n])
  show "alen (data (chan two_per_pixel)) = 8000"
    unfolding two_per_pixel_def by (simp add: alen_ensure [OF n])
  show "samples_per_pixel (chan two_per_pixel) = 2"
    unfolding two_per_pixel_def
    by (simp add: ensure_keeps chan_new_world coarse_channel_def new_VirtualChannel_def)
  show "refreshCallback (chan two_per_pixel)"
    unfolding two_per_pixel_def ensure_refresh [OF n]
    by (simp add: chan_new_world coarse_channel_def new_VirtualChannel_def)
  show "rq_from (requests two_per_pixel ! 0) = 3000" "rq_to (requests two_per_pixel ! 0) = 7000"
    unfolding two_per_pixel_def using latest_request_span [OF n]
    by (simp_all add: requests_new_world)
  show "length (requests two_per_pixel) = 1" "in_flight two_per_pixel 0"
    unfolding two_per_pixel_def using requests_ensure [OF n]
    by (simp_all add: requests_new_world)
qed

lemma two_per_pixel_seeded:
  "window_pair (chan two_per_pixel) 5000 = (Num (- 1), Num 1)"
proof -
  have r: "\<not> in_range coarse_channel 5000"
    by (simp add: in_range_def coarse_channel_def new_VirtualChannel_def alen_new_Array)
  have i: "sampleIdxInOriginalWave coarse_channel 5000 = 20"
    by (simp add: sampleIdxInOriginalWave_def Math_round_def coarse_channel_def
        new_VirtualChannel_def base_wave_def)
  have b: "seed_in_bounds coarse_channel 5000"
    unfolding seed_in_bounds_def i
    by (simp add: coarse_channel_def new_VirtualChannel_def base_wave_def)
  show ?thesis
    unfolding two_per_pixel_def
    using window_pair_ensure [OF two_per_pixel_fresh, of 5000] r b
    by (simp add: chan_new_world i)
      (simp add: coarse_channel_def new_VirtualChannel_def base_wave_def)
qed

text \<open>
  Claim C10 at a detail response of 4000 points at one sample per pixel, for a view at two
  samples per pixel: the response resampled to the view has 2000 points, but the handler
  means to copy \<open>min(4000, 4000) = 4000\<close> pairs.  The read at \<open>dataIdx = 2000\<close> is past the
  end of the resampled channel and throws: pixel 5000 keeps its seeded pair \<open>(-1, 1)\<close> and
  the refresh callback, which the channel has, is not called.
\<close>

theorem C10_copy_reads_past_resampled_end:
  "numSamplesToCopy (requests two_per_pixel ! 0) detail_wave = 4000 \<and>
   length_wd (halved detail_wave (samples_per_pixel (chan two_per_pixel))) = 2000 \<and>
   window_pair (chan two_per_pixel) 5000 = (Num (- 1), Num 1) \<and>
   \<not> index_in_wave (halved detail_wave (samples_per_pixel (chan two_per_pixel))) 2000 \<and>
   snd (copy_loop (halved detail_wave (samples_per_pixel (chan two_per_pixel))) 0
          (numSamplesToCopy (requests two_per_pixel ! 0) detail_wave) (data (chan two_per_pixel)))
     = Some RangeError \<and>
   window_pair (chan (onload halved two_per_pixel 0 4 200 detail_wave)) 5000 = (Num (- 1), Num 1) \<and>
   refreshCallback (chan two_per_pixel) \<and>
   refreshes (onload halved two_per_pixel 0 4 200 detail_wave) = refreshes two_per_pixel"
proof -
  have n: "numSamplesToCopy (requests two_per_pixel ! 0) detail_wave = 4000"
    by (simp add: numSamplesToCopy_def two_per_pixel_window detail_wave_def)
  have l: "length_wd (halved detail_wave (samples_per_pixel (chan two_per_pixel))) = 2000"
    by (simp add: halved_def detail_wave_def)
  have l2: "length_wd (halved detail_wave 2) = 2000"
    by (simp add: halved_def detail_wave_def)
  have c: "channels detail_wave = 1" by (simp add: detail_wave_def)
  have h: "0 < length (requests two_per_pixel)" by (simp add: two_per_pixel_window)
  have o: "\<not> index_in_wave (halved detail_wave (samples_per_pixel (chan two_per_pixel))) 2000"
    by (simp add: index_in_wave_def l)
  have t: "snd (copy_loop (halved detail_wave (samples_per_pixel (chan two_per_pixel))) 0
      (numSamplesToCopy (requests two_per_pixel ! 0) detail_wave) (data (chan two_per_pixel)))
      = Some RangeError"
    by (simp add: thrown_copy_loop n l)
  have "window_pair (chan (onload halved two_per_pixel 0 4 200 detail_wave))
      (dataOffset (chan two_per_pixel) + 2000)
      = window_pair (chan two_per_pixel) (dataOffset (chan two_per_pixel) + 2000)"
    by (rule window_pair_onload_kept [OF h c]) (simp_all add: n l2 two_per_pixel_window)
  then have p: "window_pair (chan (onload halved two_per_pixel 0 4 200 detail_wave)) 5000
      = (Num (- 1), Num 1)"
    by (simp add: two_per_pixel_window two_per_pixel_seeded)
  have r: "refreshes (onload halved two_per_pixel 0 4 200 detail_wave) = refreshes two_per_pixel"
    by (simp add: refreshes_onload [OF h c] n l2 two_per_pixel_window)
  show ?thesis
    using n l o t p r two_per_pixel_seeded two_per_pixel_window(4) by simp
qed

section \<open>One fetch in flight\<close>

lemma latest_only_new: "latest_only (new_world (new_VirtualChannel original spp provider cb))"
  by (simp add: latest_only_def new_world_def new_VirtualChannel_def)

lemma latest_only_ensure:
  assumes "latest_only w"
  shows "latest_only (ensureIndexAvailable w index)"
proof (cases "already_available (chan w) index")
  case True
  then show ?thesis using assms by (simp add: ensure_noop)
next
  case False
  show ?thesis
  proof (cases "xhr (chan w)")
    case None
    then have "requests w = []" using assms by (simp add: latest_only_def)
    then show ?thesis
      using None by (simp add: ensure_refresh [OF False] latest_only_def aborted_prev_def)
  next
    case (Some h)
    then have h: "Suc h = length (requests w)"
      and old: "\<forall>k<h. rq_aborted (requests w ! k) \<or> rq_done (requests w ! k)"
      using assms by (simp_all add: latest_only_def)
    have ap: "aborted_prev w = abort h (requests w)"
      using Some by (simp add: aborted_prev_def)
    have "rq_aborted (abort h (requests w) ! k) \<or> rq_done (abort h (requests w) ! k)"
      if "k < length (requests w)" for k
    proof (cases "k = h")
      case True
      then show ?thesis using that by (simp add: nth_abort)
    next
      case False
      then have "k < h" using that h by simp
      then show ?thesis using old that False by (simp add: nth_abort)
    qed
    then show ?thesis
      by (simp add: ensure_refresh [OF False] latest_only_def ap nth_append length_abort)
  qed
qed

lemma latest_only_complete:
  assumes "latest_only w"
  shows "latest_only (complete h w)"
proof (cases "xhr (chan w)")
  case None
  then show ?thesis using assms by (simp add: latest_only_def complete_def)
next
  case (Some c)
  then have c: "Suc c = length (requests w)"
    and f: "rq_from (requests w ! c) = dataOffset (chan w)"
    and old: "\<forall>k<c. rq_aborted (requests w ! k) \<or> rq_done (requests w ! k)"
    using assms by (simp_all add: latest_only_def)
  have "rq_from (requests (complete h w) ! c) = dataOffset (chan w)"
    using c f by (auto simp: nth_complete)
  moreover have "rq_aborted (requests (complete h w) ! k) \<or> rq_done (requests (complete h w) ! k)"
    if "k < c" for k
    using that c old by (simp add: nth_complete)
  ultimately show ?thesis
    using Some c by (simp add: latest_only_def complete_keeps)
qed

lemma latest_only_onload:
  assumes "latest_only w"
  shows "latest_only (onload rsm w h readyState status wd)"
  using assms by (simp add: latest_only_def onload_keeps split: option.splits)

lemma latest_only_deliver:
  assumes "latest_only w"
  shows "latest_only (deliver rsm w e)"
  using assms
  by (cases e) (simp_all add: latest_only_ensure latest_only_complete latest_only_onload)

lemma latest_only_run:
  assumes "latest_only w"
  shows "latest_only (run rsm w es)"
  using assms unfolding run_def
  by (induction es arbitrary: w) (simp_all add: latest_only_deliver)

lemma in_flight_latest:
  assumes "latest_only w" and "in_flight w h"
  shows "xhr (chan w) = Some h \<and> rq_from (requests w ! h) = dataOffset (chan w)"
proof (cases "xhr (chan w)")
  case None
  then show ?thesis using assms by (simp add: latest_only_def in_flight_def)
next
  case (Some c)
  then have c: "Suc c = length (requests w)"
    and f: "rq_from (requests w ! c) = dataOffset (chan w)"
    and old: "\<forall>k<c. rq_aborted (requests w ! k) \<or> rq_done (requests w ! k)"
    using assms(1) by (simp_all add: latest_only_def)
  have "h < Suc c" using assms(2) c by (simp add: in_flight_def)
  moreover have "\<not> h < c" using old assms(2) by (auto simp: in_flight_def)
  ultimately have "h = c" by simp
  then show ?thesis using Some f by simp
qed

lemma in_flight_after_refresh:
  assumes "latest_only w" and "\<not> already_available (chan w) index"
  shows "in_flight (ensureIndexAvailable w index) h \<longleftrightarrow> h = length (requests w)"
proof
  assume "in_flight (ensureIndexAvailable w index) h"
  then have "xhr (chan (ensureIndexAvailable w index)) = Some h"
    using in_flight_latest latest_only_ensure [OF assms(1)] by blast
  then show "h = length (requests w)"
    by (simp add: ensure_refresh [OF assms(2)])
next
  assume "h = length (requests w)"
  then show "in_flight (ensureIndexAvailable w index) h"
    using requests_ensure(2) [OF assms(2)] by simp
qed

lemma aborted_by_refresh:
  assumes "latest_only w" and "\<not> already_available (chan w) index" and "in_flight w h"
  shows "rq_aborted (requests (ensureIndexAvailable w index) ! h)"
proof -
  have x: "xhr (chan w) = Some h" using in_flight_latest [OF assms(1,3)] by simp
  have h: "h < length (requests w)" "\<not> rq_done (requests w ! h)"
    using assms(3) by (simp_all add: in_flight_def)
  have "aborted_prev w = abort h (requests w)" using x by (simp add: aborted_prev_def)
  then show ?thesis
    using h by (simp add: ensure_refresh [OF assms(2)] nth_append length_abort nth_abort)
qed

lemma stale_event_ignored:
  assumes "latest_only w" and "xhr (chan w) \<noteq> Some h"
  shows "deliver rsm w (Load h status wd) = w" and "deliver rsm w (Failed h) = w"
proof -
  have "\<not> in_flight w h" using in_flight_latest [OF assms(1)] assms(2) by blast
  then show "deliver rsm w (Load h status wd) = w" and "deliver rsm w (Failed h) = w"
    by simp_all
qed

text \<open>
  Claim C1.  The browser delivers no event to a request that was aborted or has completed.
  Whatever the renderer reads and however the requests end, in any order, at most one fetch
  is in flight: it is the latest request, and it belongs to the resident window.  Every
  window refresh aborts the outstanding request before it sends the new one, which is then
  the only one in flight.  A response or a failure of a request other than the latest, a
  superseded one, changes nothing: it never overwrites the window a later refresh installed.
\<close>

theorem C1_only_latest_fetch_in_flight:
  assumes "w = run rsm (new_world (new_VirtualChannel original spp provider cb)) es"
  shows "(\<forall>h. in_flight w h \<longrightarrow>
            xhr (chan w) = Some h \<and> rq_from (requests w ! h) = dataOffset (chan w)) \<and>
         (\<forall>h k. in_flight w h \<and> in_flight w k \<longrightarrow> h = k) \<and>
         (\<not> already_available (chan w) index \<longrightarrow>
            (\<forall>h. in_flight (ensureIndexAvailable w index) h \<longleftrightarrow> h = length (requests w))) \<and>
         (\<not> already_available (chan w) index \<longrightarrow>
            (\<forall>h. in_flight w h \<longrightarrow> rq_aborted (requests (ensureIndexAvailable w index) ! h))) \<and>
         (\<forall>h. xhr (chan w) \<noteq> Some h \<longrightarrow>
            deliver rsm w (Load h status waveformData) = w \<and> deliver rsm w (Failed h) = w)"
proof -
  have inv: "latest_only w"
    unfolding assms by (intro latest_only_run latest_only_new)
  have one: "\<forall>h. in_flight w h \<longrightarrow>
      xhr (chan w) = Some h \<and> rq_from (requests w ! h) = dataOffset (chan w)"
    using in_flight_latest [OF inv] by blast
  then have two: "\<forall>h k. in_flight w h \<and> in_flight w k \<longrightarrow> h = k"
    by (metis option.inject)
  have new: "\<not> already_available (chan w) index \<longrightarrow>
      (\<forall>h. in_flight (ensureIndexAvailable w index) h \<longleftrightarrow> h = length (requests w))"
    using in_flight_after_refresh [OF inv] by blast
  have old: "\<not> already_available (chan w) index \<longrightarrow>
      (\<forall>h. in_flight w h \<longrightarrow> rq_aborted (requests (ensureIndexAvailable w index) ! h))"
    using aborted_by_refresh [OF inv] by blast
  have stale: "\<forall>h. xhr (chan w) \<noteq> Some h \<longrightarrow>
      deliver rsm w (Load h status waveformData) = w \<and> deliver rsm w (Failed h) = w"
    using stale_event_ignored [OF inv] by blast
  from one two new old stale show ?thesis by blast
qed

lemma moved_on_eq: "moved_on = ensureIndexAvailable at_5000 500"
  by (simp add: moved_on_def run_def at_5000_def)

lemma moved_on_fresh: "\<not> already_available (chan at_5000) 500"
  by (simp add: already_available_def at_5000_window)

lemma moved_on_window:
  "dataOffset (chan moved_on) = - 1500" "xhr (chan moved_on) = Some 1"
  "length (requests moved_on) = 2" "in_flight moved_on 1"
proof -
  note n = moved_on_fresh
  show "dataOffset (chan moved_on) = - 1500"
    unfolding moved_on_eq by (simp add: dataOffset_ensure [OF n])
  show "xhr (chan moved_on) = Some 1"
    unfolding moved_on_eq ensure_refresh [OF n] by (simp add: at_5000_requests)
  show "length (requests moved_on) = 2" "in_flight moved_on 1"
    unfolding moved_on_eq using requests_ensure [OF n] by (simp_all add: at_5000_requests)
qed

text \<open>
  The renderer reads pixel 5000 and then pixel 500: the request of the window
  \<open>[3000, 7000)\<close> is aborted, the request of \<open>[-1500, 2500)\<close> is the only one in flight, and
  a response to the first request changes nothing.
\<close>

theorem C1_only_latest_fetch_in_flight_witness:
  "in_flight at_5000 0 \<and> \<not> already_available (chan at_5000) 500 \<and>
   moved_on = ensureIndexAvailable at_5000 500 \<and>
   rq_aborted (requests moved_on ! 0) \<and> \<not> in_flight moved_on 0 \<and> in_flight moved_on 1 \<and>
   xhr (chan moved_on) = Some 1 \<and>
   rq_from (requests moved_on ! 1) = dataOffset (chan moved_on) \<and>
   deliver gapped moved_on (Load 0 200 fine_detail) = moved_on"
proof -
  have a: "at_5000 = run gapped (new_world (new_VirtualChannel base_wave (1024 / 10) a_provider True))
      [Access 5000]"
    by (simp add: at_5000_def run_def fine_channel_def)
  have m: "moved_on = run gapped (new_world (new_VirtualChannel base_wave (1024 / 10) a_provider True))
      [Access 5000, Access 500]"
    by (simp add: moved_on_def fine_channel_def)
  note before = C1_only_latest_fetch_in_flight [OF a, of 500 200 fine_detail]
  note after = C1_only_latest_fetch_in_flight [OF m, of 0 200 fine_detail]
  have f: "in_flight at_5000 0" by (rule at_5000_requests)
  have n: "\<not> already_available (chan at_5000) 500" by (rule moved_on_fresh)
  have ab: "rq_aborted (requests moved_on ! 0)"
    unfolding moved_on_eq using before f n by blast
  have l: "in_flight moved_on 1" by (rule moved_on_window)
  have x: "xhr (chan moved_on) = Some 1 \<and>
      rq_from (requests moved_on ! 1) = dataOffset (chan moved_on)"
    using after l by blast
  have "xhr (chan moved_on) \<noteq> Some 0" using x by simp
  then have s: "deliver gapped moved_on (Load 0 200 fine_detail) = moved_on"
    using after by blast
  have "\<not> in_flight moved_on 0" using after l by (metis zero_neq_one)
  then show ?thesis using f n ab l x s moved_on_eq by simp
qed

section \<open>Ordered pairs\<close>

lemma elems_seed_loop_above:
  assumes "(hi - lo) * 2 \<le> k"
  shows "elems (seed_loop ch lo hi i d) k = elems d k"
  using assms
proof (induction ch lo hi i d rule: seed_loop.induct)
  case (1 ch lo hi i newData)
  show ?case
  proof (cases "i < hi")
    case True
    have "elems (seed_loop ch lo hi (i + 1) (seed_step ch lo i newData)) k
            = elems (seed_step ch lo i newData) k"
      using True "1.prems" by (intro "1.IH") auto
    also have "\<dots> = elems newData k"
      using True "1.prems" by (intro elems_seed_step_other) auto
    finally show ?thesis using True by (subst seed_loop.simps) simp
  next
    case False
    then show ?thesis by (subst seed_loop.simps) simp
  qed
qed

lemma pair_ordered_Undefined [simp]:
  "pair_ordered Undefined v" "pair_ordered v Undefined"
  by (cases v; simp)+

lemma pair_ordered_aget:
  assumes "\<forall>k. pair_ordered (elems d (k * 2)) (elems d (k * 2 + 1))"
  shows "pair_ordered (aget d (m * 2)) (aget d (m * 2 + 1))"
  using assms by (simp add: aget_def)

lemma seed_in_wave: "seed_in_bounds ch j \<Longrightarrow>
    index_in_wave (originalWaveform ch) (sampleIdxInOriginalWave ch j)"
  by (simp add: seed_in_bounds_def index_in_wave_def)

lemma ordered_seed_loop:
  assumes "wave_ordered (originalWaveform ch)" and "window_ordered ch"
  shows "pair_ordered (elems (seed_loop ch lo hi lo (new_Array n)) (k * 2))
           (elems (seed_loop ch lo hi lo (new_Array n)) (k * 2 + 1))"
proof -
  let ?d = "seed_loop ch lo hi lo (new_Array n)"
  consider "k < 0" | "0 \<le> k" "k < hi - lo" | "hi - lo \<le> k" by linarith
  then show ?thesis
  proof cases
    case 1
    then have "elems ?d (k * 2) = Undefined"
      by (simp add: elems_seed_loop_below elems_new_Array)
    then show ?thesis by simp
  next
    case 2
    let ?j = "lo + k"
    have j: "lo \<le> ?j" "?j < hi" using 2 by simp_all
    have a: "elems ?d ((?j - lo) * 2) = elems (seed_step ch lo ?j (new_Array n)) ((?j - lo) * 2)"
      using j by (intro elems_seed_loop_at) auto
    have b: "elems ?d ((?j - lo) * 2 + 1)
        = elems (seed_step ch lo ?j (new_Array n)) ((?j - lo) * 2 + 1)"
      using j by (intro elems_seed_loop_at) auto
    have old: "pair_ordered (aget (data ch) ((?j - dataOffset ch) * 2))
        (aget (data ch) ((?j - dataOffset ch) * 2 + 1))"
      using assms(2) by (intro pair_ordered_aget) (simp add: window_ordered_def)
    have seed: "seed_in_bounds ch ?j \<longrightarrow> pair_ordered
        (channel_min_sample (originalWaveform ch) (sampleIdxInOriginalWave ch ?j))
        (channel_max_sample (originalWaveform ch) (sampleIdxInOriginalWave ch ?j))"
      using assms(1) seed_in_wave by (simp add: wave_ordered_def)
    have "pair_ordered (elems ?d ((?j - lo) * 2)) (elems ?d ((?j - lo) * 2 + 1))"
      unfolding a b seed_step_new using old seed by simp
    then show ?thesis by simp
  next
    case 3
    then have "elems ?d (k * 2) = Undefined"
      by (simp add: elems_seed_loop_above elems_new_Array)
    then show ?thesis by simp
  qed
qed

lemma ordered_copy_loop:
  assumes "wave_ordered c"
    and "\<forall>k. pair_ordered (elems d (k * 2)) (elems d (k * 2 + 1))"
  shows "pair_ordered (elems (fst (copy_loop c 0 n d)) (k * 2))
           (elems (fst (copy_loop c 0 n d)) (k * 2 + 1))"
proof -
  consider "k < 0" | "0 \<le> k" "k < n" "index_in_wave c k" | "n \<le> k \<or> length_wd c \<le> k"
    unfolding index_in_wave_def by linarith
  then show ?thesis
  proof cases
    case 1
    then show ?thesis using assms(2) by (simp add: elems_copy_loop_below)
  next
    case 2
    then have "elems (fst (copy_loop c 0 n d)) (k * 2) = channel_min_sample c k \<and>
        elems (fst (copy_loop c 0 n d)) (k * 2 + 1) = channel_max_sample c k"
      by (intro elems_copy_loop_at) simp_all
    then show ?thesis using assms(1) 2 by (simp add: wave_ordered_def)
  next
    case 3
    then have "elems (fst (copy_loop c 0 n d)) (k * 2) = elems d (k * 2)"
      "elems (fst (copy_loop c 0 n d)) (k * 2 + 1) = elems d (k * 2 + 1)"
      by (auto intro!: elems_copy_loop_above)
    then show ?thesis using assms(2) by simp
  qed
qed

lemma window_ordered_ensure:
  assumes "wave_ordered (originalWaveform (chan w))" and "window_ordered (chan w)"
  shows "window_ordered (chan (ensureIndexAvailable w index))"
proof (cases "already_available (chan w) index")
  case True
  then show ?thesis using assms(2) by (simp add: ensure_noop)
next
  case False
  show ?thesis
    unfolding ensure_refresh [OF False] window_ordered_def
    using ordered_seed_loop [OF assms] by simp
qed

lemma window_ordered_onload:
  assumes "window_ordered (chan w)"
    and "wave_ordered (rsm wd (samples_per_pixel (chan w)))"
  shows "window_ordered (chan (onload rsm w h readyState status wd))"
proof -
  have "\<forall>k. pair_ordered (elems (data (chan w)) (k * 2)) (elems (data (chan w)) (k * 2 + 1))"
    using assms(1) by (simp add: window_ordered_def)
  from ordered_copy_loop [OF assms(2) this] assms(1) show ?thesis
    by (simp add: onload_def Let_def window_ordered_def)
qed

lemma window_ordered_deliver:
  assumes "wave_ordered (originalWaveform (chan w))" and "window_ordered (chan w)"
    and "resampled_ordered rsm (samples_per_pixel (chan w)) e"
  shows "wave_ordered (originalWaveform (chan (deliver rsm w e))) \<and>
         window_ordered (chan (deliver rsm w e)) \<and>
         samples_per_pixel (chan (deliver rsm w e)) = samples_per_pixel (chan w)"
proof (cases e)
  case (Access index)
  then show ?thesis using assms(1,2) by (simp add: ensure_keeps window_ordered_ensure)
next
  case (Load h status wd)
  then have "wave_ordered (rsm wd (samples_per_pixel (chan w)))"
    using assms(3) by simp
  then have "window_ordered (chan (onload rsm (complete h w) h 4 status wd))"
    using assms(2) by (intro window_ordered_onload) (simp_all add: complete_keeps)
  then show ?thesis using Load assms(1,2) by (simp add: onload_keeps complete_keeps)
next
  case (Failed h)
  then show ?thesis using assms(1,2) by (simp add: complete_keeps)
qed

lemma window_ordered_run:
  assumes "wave_ordered (originalWaveform (chan w))" and "window_ordered (chan w)"
    and "\<forall>e\<in>set es. resampled_ordered rsm (samples_per_pixel (chan w)) e"
  shows "window_ordered (chan (run rsm w es))"
  using assms unfolding run_def
proof (induction es arbitrary: w)
  case Nil
  then show ?case by simp
next
  case (Cons e es)
  have "wave_ordered (originalWaveform (chan (deliver rsm w e))) \<and>
      window_ordered (chan (deliver rsm w e)) \<and>
      samples_per_pixel (chan (deliver rsm w e)) = samples_per_pixel (chan w)"
    using Cons.prems by (intro window_ordered_deliver) simp_all
  then show ?case using Cons.IH [of "deliver rsm w e"] Cons.prems by simp
qed

lemma in_range_available: "in_range ch index \<Longrightarrow> already_available ch index"
  by (simp add: in_range_def already_available_def)

lemma samples_in_range:
  assumes "in_range (chan w) i"
  shows "min_sample w i = (w, fst (window_pair (chan w) i))"
    and "max_sample w i = (w, snd (window_pair (chan w) i))"
  using in_range_available [OF assms]
  by (simp_all add: min_sample_def max_sample_def ensure_noop window_pair_def)

text \<open>
  Claim C8, as amended.  Let the backing channel have \<open>min \<le> max\<close> at every index it holds,
  and let every response, as resampled to the view's samples per pixel, have it.  Then,
  whatever the renderer reads and however the requests end, every pair of the window that
  holds two numbers is ordered: seeding, carrying over and installing a response keep this.
  For a pixel \<open>i\<close> of the resident window, the accessors change nothing, and when both
  return numbers, \<^verbatim>\<open>min_sample(i) <= max_sample(i)\<close>.
\<close>

theorem C8_populated_pairs_ordered:
  assumes "wave_ordered original"
    and "\<forall>e\<in>set es. resampled_ordered rsm spp e"
    and "w = run rsm (new_world (new_VirtualChannel original spp provider cb)) es"
  shows "window_ordered (chan w) \<and>
         (in_range (chan w) i \<longrightarrow>
            fst (min_sample w i) = w \<and> fst (max_sample w i) = w \<and>
            pair_ordered (snd (min_sample w i)) (snd (max_sample w i)) \<and>
            (snd (min_sample w i) = Num a \<and> snd (max_sample w i) = Num b \<longrightarrow>
               a \<le> b \<and> js_le (snd (min_sample w i)) (snd (max_sample w i))))"
proof -
  let ?w0 = "new_world (new_VirtualChannel original spp provider cb)"
  have o: "wave_ordered (originalWaveform (chan ?w0))"
    using assms(1) by (simp add: new_world_def new_VirtualChannel_def)
  have i: "window_ordered (chan ?w0)"
    by (simp add: new_world_def new_VirtualChannel_def window_ordered_def elems_new_Array)
  have s: "\<forall>e\<in>set es. resampled_ordered rsm (samples_per_pixel (chan ?w0)) e"
    using assms(2) by (simp add: new_world_def new_VirtualChannel_def)
  have inv: "window_ordered (chan w)"
    unfolding assms(3) by (rule window_ordered_run [OF o i s])
  have p: "pair_ordered (fst (window_pair (chan w) i)) (snd (window_pair (chan w) i))"
    using inv unfolding window_pair_def fst_conv snd_conv
    by (intro pair_ordered_aget) (simp add: window_ordered_def)
  show ?thesis
    using inv p by (auto simp: samples_in_range)
qed

lemma loaded_eq: "loaded = onload same_scale (complete 0 two_per_pixel) 0 4 200 coarse_detail"
  using two_per_pixel_window(8) by (simp add: loaded_def run_def two_per_pixel_def)

lemma loaded_pair: "window_pair (chan loaded) 3000 = (Num (- 7), Num 7)"
proof -
  let ?w = "complete 0 two_per_pixel"
  have c: "numSamplesToCopy (requests ?w ! 0) coarse_detail = 4000"
    by (simp add: numSamplesToCopy_def nth_complete two_per_pixel_window coarse_detail_def
        detail_wave_def)
  have "window_pair (chan (onload same_scale ?w 0 4 200 coarse_detail)) (dataOffset (chan ?w) + 0) =
     (channel_min_sample (same_scale coarse_detail (samples_per_pixel (chan ?w))) 0,
      channel_max_sample (same_scale coarse_detail (samples_per_pixel (chan ?w))) 0)"
    by (rule window_pair_onload)
      (simp_all add: c complete_keeps two_per_pixel_window,
        simp_all add: same_scale_def coarse_detail_def detail_wave_def)
  then show ?thesis
    by (simp add: loaded_eq complete_keeps two_per_pixel_window same_scale_def coarse_detail_def
        detail_wave_def)
qed

lemma loaded_in_range: "in_range (chan loaded) 3000"
  by (simp add: loaded_eq in_range_def onload_keeps complete_keeps two_per_pixel_window
      data_onload coarse_detail_def detail_wave_def alen_copy_loop numSamplesToCopy_def)

text \<open>
  The view at two samples per pixel, after its request loaded a response at that scale: the
  backing waveform and the resampled response are ordered, and pixel 3000 holds the
  response's first pair \<open>(-7, 7)\<close>.
\<close>

theorem C8_populated_pairs_ordered_witness:
  "wave_ordered base_wave \<and> wave_ordered (same_scale coarse_detail 2) \<and>
   in_range (chan loaded) 3000 \<and> snd (min_sample loaded 3000) = Num (- 7) \<and>
   snd (max_sample loaded 3000) = Num 7 \<and>
   js_le (snd (min_sample loaded 3000)) (snd (max_sample loaded 3000))"
proof -
  have b: "wave_ordered base_wave"
    by (simp add: wave_ordered_def index_in_wave_def base_wave_def)
  have d: "wave_ordered (same_scale coarse_detail 2)"
    by (simp add: wave_ordered_def index_in_wave_def same_scale_def coarse_detail_def
        detail_wave_def)
  have e: "\<forall>e\<in>set [Access 5000, Load 0 200 coarse_detail]. resampled_ordered same_scale 2 e"
    using d by simp
  have l: "loaded = run same_scale (new_world (new_VirtualChannel base_wave 2 a_provider True))
      [Access 5000, Load 0 200 coarse_detail]"
    by (simp add: loaded_def coarse_channel_def)
  note c8 = C8_populated_pairs_ordered [OF b e l, of 3000 "- 7" 7]
  have r: "in_range (chan loaded) 3000" by (rule loaded_in_range)
  have m: "snd (min_sample loaded 3000) = Num (- 7)" "snd (max_sample loaded 3000) = Num 7"
    by (simp_all add: samples_in_range [OF r] loaded_pair)
  show ?thesis using c8 b d r m by blast
qed

lemma loaded_fine_eq: "loaded_fine = onload gapped (complete 0 at_5000) 0 4 200 fine_detail"
  using at_5000_requests(2) by (simp add: loaded_fine_def run_def at_5000_def)

lemma loaded_fine_pair: "window_pair (chan loaded_fine) 3000 = (Num 127, Num (- 128))"
proof -
  let ?w = "complete 0 at_5000"
  have n: "\<not> already_available (chan (new_world fine_channel)) 5000"
    by (simp add: chan_new_world fresh_not_available)
  have span: "rq_from (requests at_5000 ! 0) = 3000" "rq_to (requests at_5000 ! 0) = 7000"
    unfolding at_5000_def using latest_request_span [OF n] by (simp_all add: requests_new_world)
  have c: "numSamplesToCopy (requests ?w ! 0) fine_detail = 4000"
    by (simp add: numSamplesToCopy_def nth_complete at_5000_requests span fine_detail_def
        detail_wave_def)
  have "window_pair (chan (onload gapped ?w 0 4 200 fine_detail)) (dataOffset (chan ?w) + 0) =
     (channel_min_sample (gapped fine_detail (samples_per_pixel (chan ?w))) 0,
      channel_max_sample (gapped fine_detail (samples_per_pixel (chan ?w))) 0)"
    by (rule window_pair_onload)
      (simp_all add: c complete_keeps at_5000_requests at_5000_window,
        simp_all add: gapped_def fine_detail_def detail_wave_def)
  then show ?thesis
    by (simp add: loaded_fine_eq complete_keeps at_5000_window gapped_def)
qed

lemma loaded_fine_in_range: "in_range (chan loaded_fine) 3000"
  by (simp add: loaded_fine_eq in_range_def onload_keeps complete_keeps at_5000_window
      data_onload at_5000_requests fine_detail_def detail_wave_def alen_copy_loop
      numSamplesToCopy_def)

text \<open>
  The claim as written fails twice.  At a pixel of the resident window that holds no pair
  (pixel 6000 of the window \<open>[3000, 7000)\<close> maps beyond the backing waveform) both accessors
  return \<^verbatim>\<open>undefined\<close>, and \<^verbatim>\<open>undefined <= undefined\<close> is false.  And an ordered backing
  waveform with an ordered response does not make the populated pairs ordered: the window
  receives the response as the library resampled it, and at 102.4 samples per pixel pixel
  3000 receives \<open>(127, -128)\<close>.
\<close>

theorem C8_unpopulated_pair_not_ordered:
  "wave_ordered base_wave \<and> in_range (chan at_5000) 6000 \<and>
   snd (min_sample at_5000 6000) = Undefined \<and> snd (max_sample at_5000 6000) = Undefined \<and>
   \<not> js_le (snd (min_sample at_5000 6000)) (snd (max_sample at_5000 6000)) \<and>
   wave_ordered fine_detail \<and> in_range (chan loaded_fine) 3000 \<and>
   snd (min_sample loaded_fine 3000) = Num 127 \<and> snd (max_sample loaded_fine 3000) = Num (- 128) \<and>
   \<not> js_le (snd (min_sample loaded_fine 3000)) (snd (max_sample loaded_fine 3000))"
proof -
  have b: "wave_ordered base_wave"
    by (simp add: wave_ordered_def index_in_wave_def base_wave_def)
  have d: "wave_ordered fine_detail"
    by (simp add: wave_ordered_def index_in_wave_def fine_detail_def detail_wave_def)
  have r: "in_range (chan at_5000) 6000" by (simp add: in_range_def at_5000_window)
  have p: "window_pair (chan at_5000) 6000 = (Undefined, Undefined)"
    using at_5000_pair [of 6000] by simp
  have q: "in_range (chan loaded_fine) 3000" by (rule loaded_fine_in_range)
  show ?thesis
    using b d r q by (simp add: samples_in_range [OF r] samples_in_range [OF q] p loaded_fine_pair)
qed

end
